theory Spec2Isabelle
  imports
    Complex_Main
    "HOL-Library.Char_ord"
    "HOL-Library.List_Lexorder"
begin

section \<open>Overview\<close>

text \<open>
  The sources are the front end of a commit-analytics dashboard: the HTTP client
  (\<open>services/api\<close>), the mock services (\<open>services/api-mock\<close>), the container of
  \<open>App.jsx\<close> in its two versions, and the tables of \<open>data/schema.sql\<close>. Each function is
  embedded as a HOL function of the same name (\<open>api_\<close> and \<open>mock_\<close> tell the two service
  modules apart). An \<open>async\<close> function is the function of its result: a \<open>try\<close> block is a
  value of \<open>js_error + 'a\<close>, and the \<open>catch\<close> block maps the error to the value returned.
  The server and the engine's \<open>Date.parse\<close> are the environment, a record of functions.
  The server-side store and analytics are not among the sources; where a property needs
  them they are modelled from the specification, and said to be.
\<close>

section \<open>JavaScript values and errors\<close>

text \<open>
  The services receive \<open>startDate\<close> and \<open>endDate\<close> as \<open>Date|string\<close> (their JSDoc),
  and callers may leave them out. A \<open>Date\<close> object carries a time value: an integer
  number of milliseconds since the epoch, of magnitude at most \<open>8.64e15\<close>, or \<open>NaN\<close>
  (an invalid date), which is \<open>None\<close>.
\<close>

datatype js_date = Undefined | Null | Str string | DateObj "int option"

text \<open>
  What a \<open>try\<close> block of the services can catch: the \<open>RangeError\<close> of \<open>toISOString\<close>
  on an invalid date, the \<open>TypeError\<close> of a property read on \<open>null\<close> or \<open>undefined\<close>,
  and the rejection of an HTTP request (no connection, timeout, a status outside 2xx),
  which carries \<open>error.response?.data?.message\<close> when the server sent one.
\<close>

datatype js_error = RangeError | TypeError | RequestError "string option"

definition js_then :: "js_error + 'a \<Rightarrow> ('a \<Rightarrow> js_error + 'b) \<Rightarrow> js_error + 'b" where
  "js_then r f = (case r of Inl e \<Rightarrow> Inl e | Inr v \<Rightarrow> f v)"

section \<open>Dates: \<open>Date.prototype.toISOString\<close> and \<open>formatDate\<close>\<close>

text \<open>
  The date part of \<open>toISOString()\<close> is the proleptic Gregorian calendar date of the day
  \<open>floor (t / msPerDay)\<close> in UTC. Year, month and day of the month are computed from the
  day number by era (400 years, 146097 days), day of era, year of era and day of a year
  that starts on 1 March.
\<close>

definition msPerDay :: int where
  "msPerDay = 86400000"

definition Day :: "int \<Rightarrow> int" where
  "Day t = t div msPerDay"

definition era :: "int \<Rightarrow> int" where
  "era z = (z + 719468) div 146097"

definition doe :: "int \<Rightarrow> int" where
  "doe z = (z + 719468) mod 146097"

definition yoe :: "int \<Rightarrow> int" where
  "yoe z = (doe z - doe z div 1460 + doe z div 36524 - doe z div 146096) div 365"

definition doy :: "int \<Rightarrow> int" where
  "doy z = doe z - (365 * yoe z + yoe z div 4 - yoe z div 100)"

definition mp :: "int \<Rightarrow> int" where
  "mp z = (5 * doy z + 2) div 153"

definition DateFromTime :: "int \<Rightarrow> int" where
  "DateFromTime t = doy (Day t) - (153 * mp (Day t) + 2) div 5 + 1"

text \<open>The month as \<open>toISOString\<close> prints it, from 1 to 12.\<close>

definition MonthFromTime :: "int \<Rightarrow> int" where
  "MonthFromTime t = (if mp (Day t) < 10 then mp (Day t) + 3 else mp (Day t) - 9)"

definition YearFromTime :: "int \<Rightarrow> int" where
  "YearFromTime t =
     yoe (Day t) + era (Day t) * 400 + (if MonthFromTime t \<le> 2 then 1 else 0)"

definition digit_char :: "int \<Rightarrow> char" where
  "digit_char n = ''0123456789'' ! nat (n mod 10)"

definition digits2 :: "int \<Rightarrow> string" where
  "digits2 n = [digit_char (n div 10), digit_char n]"

definition digits4 :: "int \<Rightarrow> string" where
  "digits4 n =
     [digit_char (n div 1000), digit_char (n div 100), digit_char (n div 10), digit_char n]"

definition digits6 :: "int \<Rightarrow> string" where
  "digits6 n =
     [digit_char (n div 100000), digit_char (n div 10000), digit_char (n div 1000),
      digit_char (n div 100), digit_char (n div 10), digit_char n]"

text \<open>
  The year is four decimal digits from 0000 to 9999, and otherwise a sign and six
  digits (the expanded years of the ECMAScript date-time string format).
\<close>

definition iso_year :: "int \<Rightarrow> string" where
  "iso_year y =
     (if 0 \<le> y \<and> y \<le> 9999 then digits4 y
      else (if y < 0 then CHR ''-'' else CHR ''+'') # digits6 \<bar>y\<bar>)"

definition iso_date :: "int \<Rightarrow> string" where
  "iso_date t =
     iso_year (YearFromTime t) @ ''-'' @ digits2 (MonthFromTime t) @ ''-''
       @ digits2 (DateFromTime t)"

text \<open>
  \<open>d.toISOString().split('T')[0]\<close>: \<open>toISOString\<close> throws a \<open>RangeError\<close> on an invalid
  date; the text before the first \<open>T\<close> is the date part.
\<close>

definition toISOString_date :: "int option \<Rightarrow> js_error + string" where
  "toISOString_date tv = (case tv of None \<Rightarrow> Inl RangeError | Some t \<Rightarrow> Inr (iso_date t))"

text \<open>
  \<open>new Date(s)\<close> for a string \<open>s\<close> stores \<open>TimeClip(Date.parse(s))\<close>. What \<open>Date.parse\<close>
  accepts beyond the ISO format depends on the engine, so it is a parameter: \<open>None\<close> is
  \<open>NaN\<close>.
\<close>

definition TimeClip :: "int \<Rightarrow> int option" where
  "TimeClip t = (if \<bar>t\<bar> \<le> 8640000000000000 then Some t else None)"

definition new_Date :: "(string \<Rightarrow> int option) \<Rightarrow> string \<Rightarrow> int option" where
  "new_Date parse s = (case parse s of None \<Rightarrow> None | Some t \<Rightarrow> TimeClip t)"

definition is_digit :: "char \<Rightarrow> bool" where
  "is_digit c = (c \<in> set ''0123456789'')"

text \<open>The test \<open>/^\d{4}-\d{2}-\d{2}$/.test(date)\<close>.\<close>

fun is_ymd :: "string \<Rightarrow> bool" where
  "is_ymd [y1, y2, y3, y4, s1, m1, m2, s2, d1, d2] =
     (is_digit y1 \<and> is_digit y2 \<and> is_digit y3 \<and> is_digit y4 \<and> s1 = CHR ''-''
      \<and> is_digit m1 \<and> is_digit m2 \<and> s2 = CHR ''-'' \<and> is_digit d1 \<and> is_digit d2)"
| "is_ymd _ = False"

text \<open>
  The form of an expanded year with its month and day: a sign, six digits, and
  \<open>-MM-DD\<close>.
\<close>

fun is_md :: "string \<Rightarrow> bool" where
  "is_md [s1, m1, m2, s2, d1, d2] =
     (s1 = CHR ''-'' \<and> is_digit m1 \<and> is_digit m2 \<and> s2 = CHR ''-'' \<and> is_digit d1
      \<and> is_digit d2)"
| "is_md _ = False"

definition is_expanded_ymd :: "string \<Rightarrow> bool" where
  "is_expanded_ymd s =
     (case s of
        [] \<Rightarrow> False
      | sg # ys \<Rightarrow>
          (sg = CHR ''+'' \<or> sg = CHR ''-'') \<and> length ys = 12
          \<and> list_all is_digit (take 6 ys) \<and> is_md (drop 6 ys))"

text \<open>
  \<open>formatDate(date)\<close>: a falsy argument (\<open>undefined\<close>, \<open>null\<close>, the empty string) gives
  the empty string; a string already in the format is returned as it is; any other
  string is parsed; a \<open>Date\<close> is printed.
\<close>

definition formatDate :: "(string \<Rightarrow> int option) \<Rightarrow> js_date \<Rightarrow> js_error + string" where
  "formatDate parse date =
     (case date of
        Undefined \<Rightarrow> Inr ''''
      | Null \<Rightarrow> Inr ''''
      | Str s \<Rightarrow>
          if s = '''' then Inr ''''
          else if is_ymd s then Inr s
          else toISOString_date (new_Date parse s)
      | DateObj tv \<Rightarrow> toISOString_date tv)"

section \<open>The HTTP client (services/api)\<close>

text \<open>
  The parameters every request carries, under their wire names. The requests for the
  day-of-week activity, the word frequencies and the fetch carry more: \<open>metric_type\<close> and
  \<open>author\<close>, \<open>limit\<close>, \<open>use_cache\<close>; they are further arguments of the server below.
\<close>

record query =
  start_date :: string
  end_date :: string
  repo_owner :: string
  repo_name :: string

text \<open>
  The fields the client reads from \<open>response.data\<close>. A field that is missing or falsy is
  \<open>None\<close>. A JSON object is kept as the list of its own properties in enumeration order
  (the order \<open>Object.entries\<close> walks them in).
\<close>

type_synonym day_table = "(string \<times> int) list"

datatype commit_dto =
  CommitDTO (dto_sha: string) (dto_author_name: string) (dto_message_title: string)
    (dto_total_changes: int) (dto_author_date: string)

record fetch_data_response =
  status :: "string option"
  response_message :: "string option"

text \<open>
  \<open>await api.get(...)\<close> either throws (the request was rejected) or gives a response,
  whose \<open>data\<close> is \<open>null\<close> (\<open>None\<close>) or holds the fields. The JavaScript engine and the
  server are the environment of the client.
\<close>

type_synonym 'a response = "js_error + 'a option"

record env =
  Date_parse :: "string \<Rightarrow> int option"
  get_authors :: "query \<Rightarrow> (string list option) response"
  get_deviations :: "query \<Rightarrow> (commit_dto list option) response"
  get_day_of_week :: "query \<Rightarrow> string \<Rightarrow> string option \<Rightarrow> (day_table option) response"
  get_word_frequencies :: "query \<Rightarrow> int \<Rightarrow> ((string \<times> int) list option) response"
  post_fetch_data :: "query \<Rightarrow> bool \<Rightarrow> fetch_data_response response"

text \<open>A property read on \<open>response.data\<close> throws a \<open>TypeError\<close> when \<open>data\<close> is \<open>null\<close>.\<close>

definition data_of :: "'a response \<Rightarrow> js_error + 'a" where
  "data_of r = js_then r (\<lambda>d. case d of None \<Rightarrow> Inl TypeError | Some v \<Rightarrow> Inr v)"

text \<open>A parameter with a default: the default stands in when the argument is left out.\<close>

definition or_default :: "'a option \<Rightarrow> 'a \<Rightarrow> 'a" where
  "or_default arg d = (case arg of None \<Rightarrow> d | Some v \<Rightarrow> v)"

text \<open>The parameters \<open>start_date\<close>, \<open>end_date\<close>, \<open>repo_owner\<close>, \<open>repo_name\<close> of every request.\<close>

definition make_query ::
  "env \<Rightarrow> js_date \<Rightarrow> js_date \<Rightarrow> string option \<Rightarrow> string option \<Rightarrow> js_error + query" where
  "make_query e startDate endDate repoOwner repoName =
     js_then (formatDate (Date_parse e) startDate) (\<lambda>s.
     js_then (formatDate (Date_parse e) endDate) (\<lambda>t.
       Inr \<lparr>start_date = s, end_date = t,
            repo_owner = or_default repoOwner ''OpenRA'',
            repo_name = or_default repoName ''OpenRA''\<rparr>))"

subsection \<open>\<open>getAuthors\<close>\<close>

text \<open>The body of the \<open>try\<close> block: \<open>return response.data.authors || []\<close>.\<close>

definition api_getAuthors_try ::
  "env \<Rightarrow> js_date \<Rightarrow> js_date \<Rightarrow> string option \<Rightarrow> string option \<Rightarrow> js_error + string list" where
  "api_getAuthors_try e startDate endDate repoOwner repoName =
     js_then (make_query e startDate endDate repoOwner repoName) (\<lambda>q.
     js_then (data_of (get_authors e q)) (\<lambda>authors.
       Inr (or_default authors [])))"

definition api_getAuthors ::
  "env \<Rightarrow> js_date \<Rightarrow> js_date \<Rightarrow> string option \<Rightarrow> string option \<Rightarrow> string list" where
  "api_getAuthors e startDate endDate repoOwner repoName =
     (case api_getAuthors_try e startDate endDate repoOwner repoName of
        Inr v \<Rightarrow> v
      | Inl error \<Rightarrow> [])"

subsection \<open>\<open>getOutliers\<close>\<close>

record outlier =
  sha :: string
  title :: string
  linesChanged :: int
  date :: string
  author :: string

text \<open>\<open>Array.prototype.map\<close> with a callback that can throw: the first throw ends it.\<close>

fun map_js :: "('a \<Rightarrow> js_error + 'b) \<Rightarrow> 'a list \<Rightarrow> js_error + 'b list" where
  "map_js f [] = Inr []"
| "map_js f (x # xs) = js_then (f x) (\<lambda>y. js_then (map_js f xs) (\<lambda>ys. Inr (y # ys)))"

definition to_outlier :: "env \<Rightarrow> commit_dto \<Rightarrow> js_error + outlier" where
  "to_outlier e commit =
     js_then (toISOString_date (new_Date (Date_parse e) (dto_author_date commit))) (\<lambda>d.
       Inr \<lparr>sha = dto_sha commit, title = dto_message_title commit,
            linesChanged = dto_total_changes commit, date = d,
            author = dto_author_name commit\<rparr>)"

definition api_getOutliers_try ::
  "env \<Rightarrow> js_date \<Rightarrow> js_date \<Rightarrow> string option \<Rightarrow> string option \<Rightarrow> js_error + outlier list" where
  "api_getOutliers_try e startDate endDate repoOwner repoName =
     js_then (make_query e startDate endDate repoOwner repoName) (\<lambda>q.
     js_then (data_of (get_deviations e q)) (\<lambda>commits.
       map_js (to_outlier e) (or_default commits [])))"

definition api_getOutliers ::
  "env \<Rightarrow> js_date \<Rightarrow> js_date \<Rightarrow> string option \<Rightarrow> string option \<Rightarrow> outlier list" where
  "api_getOutliers e startDate endDate repoOwner repoName =
     (case api_getOutliers_try e startDate endDate repoOwner repoName of
        Inr v \<Rightarrow> v
      | Inl error \<Rightarrow> [])"

subsection \<open>\<open>getMetrics\<close>\<close>

definition weekdays :: "string list" where
  "weekdays = [''Sun'', ''Mon'', ''Tue'', ''Wed'', ''Thu'', ''Fri'', ''Sat'']"

text \<open>The literal \<open>{ Sun: 0, Mon: 0, Tue: 0, Wed: 0, Thu: 0, Fri: 0, Sat: 0 }\<close>.\<close>

definition zero_days :: day_table where
  "zero_days =
     [(''Sun'', 0), (''Mon'', 0), (''Tue'', 0), (''Wed'', 0), (''Thu'', 0), (''Fri'', 0),
      (''Sat'', 0)]"

text \<open>
  The body of the \<open>try\<close> block: \<open>metricType\<close> defaults to \<open>'commits'\<close> and \<open>author\<close> to
  \<open>null\<close>; both go to the server as they are; the result is
  \<open>response.data.day_activity || { Sun: 0, ... }\<close>.
\<close>

definition api_getMetrics_try ::
  "env \<Rightarrow> js_date \<Rightarrow> js_date \<Rightarrow> string option \<Rightarrow> string option \<Rightarrow> string option
     \<Rightarrow> string option \<Rightarrow> js_error + day_table" where
  "api_getMetrics_try e startDate endDate metricType authorArg repoOwner repoName =
     js_then (make_query e startDate endDate repoOwner repoName) (\<lambda>q.
     js_then (data_of (get_day_of_week e q (or_default metricType ''commits'') authorArg))
       (\<lambda>day_activity. Inr (or_default day_activity zero_days)))"

definition api_getMetrics ::
  "env \<Rightarrow> js_date \<Rightarrow> js_date \<Rightarrow> string option \<Rightarrow> string option \<Rightarrow> string option
     \<Rightarrow> string option \<Rightarrow> day_table" where
  "api_getMetrics e startDate endDate metricType authorArg repoOwner repoName =
     (case api_getMetrics_try e startDate endDate metricType authorArg repoOwner repoName of
        Inr v \<Rightarrow> v
      | Inl error \<Rightarrow> zero_days)"

subsection \<open>\<open>getWordCloud\<close>\<close>

text \<open>
  \<open>xs.slice(0, n)\<close> for an integer \<open>n\<close>: a negative \<open>n\<close> counts from the end of the
  array; the final index is clamped to the array.
\<close>

definition slice0 :: "'a list \<Rightarrow> int \<Rightarrow> 'a list" where
  "slice0 xs n =
     take (nat (if n < 0 then max (int (length xs) + n) 0 else min n (int (length xs)))) xs"

text \<open>
  The body of the \<open>try\<close> block: \<open>limit\<close> defaults to 20 and goes to the server; the result
  is \<open>Object.entries(response.data.word_frequencies || {})\<close>, each entry as
  \<open>{ word, count }\<close>, cut by \<open>slice(0, limit)\<close>.
\<close>

definition api_getWordCloud_try ::
  "env \<Rightarrow> js_date \<Rightarrow> js_date \<Rightarrow> int option \<Rightarrow> string option \<Rightarrow> string option
     \<Rightarrow> js_error + (string \<times> int) list" where
  "api_getWordCloud_try e startDate endDate limit repoOwner repoName =
     js_then (make_query e startDate endDate repoOwner repoName) (\<lambda>q.
     js_then (data_of (get_word_frequencies e q (or_default limit 20)))
       (\<lambda>words. Inr (slice0 (or_default words []) (or_default limit 20))))"

definition api_getWordCloud ::
  "env \<Rightarrow> js_date \<Rightarrow> js_date \<Rightarrow> int option \<Rightarrow> string option \<Rightarrow> string option
     \<Rightarrow> (string \<times> int) list" where
  "api_getWordCloud e startDate endDate limit repoOwner repoName =
     (case api_getWordCloud_try e startDate endDate limit repoOwner repoName of
        Inr v \<Rightarrow> v
      | Inl error \<Rightarrow> [])"

subsection \<open>\<open>fetchData\<close>\<close>

record fetch_result =
  success :: bool
  message :: "string option"

text \<open>
  The body of the \<open>try\<close> block: \<open>useCache\<close> defaults to \<open>true\<close>; the result is
  \<open>{ success: response.data.status === 'success', message: response.data.message }\<close>.
\<close>

definition api_fetchData_try ::
  "env \<Rightarrow> js_date \<Rightarrow> js_date \<Rightarrow> string option \<Rightarrow> string option \<Rightarrow> bool option
     \<Rightarrow> js_error + fetch_result" where
  "api_fetchData_try e startDate endDate repoOwner repoName useCache =
     js_then (make_query e startDate endDate repoOwner repoName) (\<lambda>q.
     js_then (data_of (post_fetch_data e q (or_default useCache True)))
       (\<lambda>d. Inr \<lparr>success = (status d = Some ''success''), message = response_message d\<rparr>))"

text \<open>
  The \<open>catch\<close> block: \<open>error.response?.data?.message || 'Failed to fetch data from GitHub'\<close>;
  only a rejected request carries a response, and an empty message is falsy.
\<close>

definition error_message :: "js_error \<Rightarrow> string" where
  "error_message error =
     (case error of
        RequestError (Some m) \<Rightarrow> if m = '''' then ''Failed to fetch data from GitHub'' else m
      | _ \<Rightarrow> ''Failed to fetch data from GitHub'')"

definition api_fetchData ::
  "env \<Rightarrow> js_date \<Rightarrow> js_date \<Rightarrow> string option \<Rightarrow> string option \<Rightarrow> bool option
     \<Rightarrow> fetch_result" where
  "api_fetchData e startDate endDate repoOwner repoName useCache =
     (case api_fetchData_try e startDate endDate repoOwner repoName useCache of
        Inr v \<Rightarrow> v
      | Inl error \<Rightarrow> \<lparr>success = False, message = Some (error_message error)\<rparr>)"

subsection \<open>What a call does besides returning\<close>

text \<open>
  The requests the services send, with the parameters they carry, and the two effects of
  a call: a request sent by \<open>api.get\<close> or \<open>api.post\<close>, and the \<open>console.error\<close> of the
  \<open>catch\<close> block with the error it caught.
\<close>

datatype request =
  GET_authors query
| GET_deviations query
| GET_day_of_week query string "string option"
| GET_word_frequencies query int
| POST_fetch_data query bool

datatype effect = Sent request | Logged js_error

text \<open>
  Every service has the same shape: the arguments of the request are evaluated first
  (\<open>formatDate\<close> may throw there, and then nothing is sent), the request is sent, and the
  rest of the \<open>try\<close> block reads the response; whatever is thrown on the way is logged
  once by the \<open>catch\<close> block.
\<close>

definition effects_of ::
  "js_error + query \<Rightarrow> (query \<Rightarrow> request) \<Rightarrow> (query \<Rightarrow> js_error + 'a) \<Rightarrow> effect list" where
  "effects_of params req rest =
     (case params of
        Inl err \<Rightarrow> [Logged err]
      | Inr q \<Rightarrow> Sent (req q) # (case rest q of Inl err \<Rightarrow> [Logged err] | Inr v \<Rightarrow> []))"

definition api_getAuthors_effects ::
  "env \<Rightarrow> js_date \<Rightarrow> js_date \<Rightarrow> string option \<Rightarrow> string option \<Rightarrow> effect list" where
  "api_getAuthors_effects e startDate endDate repoOwner repoName =
     effects_of (make_query e startDate endDate repoOwner repoName) GET_authors
       (\<lambda>q. js_then (data_of (get_authors e q)) (\<lambda>authors. Inr (or_default authors [])))"

definition api_getOutliers_effects ::
  "env \<Rightarrow> js_date \<Rightarrow> js_date \<Rightarrow> string option \<Rightarrow> string option \<Rightarrow> effect list" where
  "api_getOutliers_effects e startDate endDate repoOwner repoName =
     effects_of (make_query e startDate endDate repoOwner repoName) GET_deviations
       (\<lambda>q. js_then (data_of (get_deviations e q)) (\<lambda>commits.
          map_js (to_outlier e) (or_default commits [])))"

definition api_getMetrics_effects ::
  "env \<Rightarrow> js_date \<Rightarrow> js_date \<Rightarrow> string option \<Rightarrow> string option \<Rightarrow> string option
     \<Rightarrow> string option \<Rightarrow> effect list" where
  "api_getMetrics_effects e startDate endDate metricType authorArg repoOwner repoName =
     effects_of (make_query e startDate endDate repoOwner repoName)
       (\<lambda>q. GET_day_of_week q (or_default metricType ''commits'') authorArg)
       (\<lambda>q. js_then (data_of (get_day_of_week e q (or_default metricType ''commits'') authorArg))
          (\<lambda>day_activity. Inr (or_default day_activity zero_days)))"

definition api_getWordCloud_effects ::
  "env \<Rightarrow> js_date \<Rightarrow> js_date \<Rightarrow> int option \<Rightarrow> string option \<Rightarrow> string option
     \<Rightarrow> effect list" where
  "api_getWordCloud_effects e startDate endDate limit repoOwner repoName =
     effects_of (make_query e startDate endDate repoOwner repoName)
       (\<lambda>q. GET_word_frequencies q (or_default limit 20))
       (\<lambda>q. js_then (data_of (get_word_frequencies e q (or_default limit 20)))
          (\<lambda>words. Inr (slice0 (or_default words []) (or_default limit 20))))"

definition api_fetchData_effects ::
  "env \<Rightarrow> js_date \<Rightarrow> js_date \<Rightarrow> string option \<Rightarrow> string option \<Rightarrow> bool option
     \<Rightarrow> effect list" where
  "api_fetchData_effects e startDate endDate repoOwner repoName useCache =
     effects_of (make_query e startDate endDate repoOwner repoName)
       (\<lambda>q. POST_fetch_data q (or_default useCache True))
       (\<lambda>q. js_then (data_of (post_fetch_data e q (or_default useCache True)))
          (\<lambda>d. Inr \<lparr>success = (status d = Some ''success''), message = response_message d\<rparr>))"

section \<open>The mock services (services/api-mock)\<close>

definition authorsList :: "string list" where
  "authorsList =
     [''Alice'', ''Bob'', ''Carol'', ''David'', ''Eve'', ''Frank'', ''Grace'', ''Heidi'',
      ''Ivan'', ''Judy'', ''Mallory'', ''Niaj'', ''Olivia'', ''Peggy'', ''Rupert'',
      ''Sybil'', ''Trent'', ''Uma'', ''Victor'', ''Wendy'']"

text \<open>\<open>getAuthors({ startDate, endDate })\<close> waits 400 ms and returns \<open>authorsList\<close>.\<close>

definition mock_getAuthors :: "js_date \<Rightarrow> js_date \<Rightarrow> string list" where
  "mock_getAuthors startDate endDate = authorsList"







definition metrics_commits :: day_table where
  "metrics_commits =
     [(''Sun'', 5), (''Mon'', 12), (''Tue'', 8), (''Wed'', 15), (''Thu'', 20),
      (''Fri'', 7), (''Sat'', 3)]"

definition metrics_additions :: day_table where
  "metrics_additions =
     [(''Sun'', 100), (''Mon'', 250), (''Tue'', 180), (''Wed'', 300), (''Thu'', 400),
      (''Fri'', 120), (''Sat'', 60)]"

definition metrics_deletions :: day_table where
  "metrics_deletions =
     [(''Sun'', 40), (''Mon'', 90), (''Tue'', 60), (''Wed'', 110), (''Thu'', 150),
      (''Fri'', 50), (''Sat'', 20)]"

definition metrics_total_changes :: day_table where
  "metrics_total_changes =
     [(''Sun'', 140), (''Mon'', 340), (''Tue'', 240), (''Wed'', 410), (''Thu'', 550),
      (''Fri'', 170), (''Sat'', 80)]"

definition metricsData :: "(string \<times> day_table) list" where
  "metricsData =
     [(''commits'', metrics_commits), (''additions'', metrics_additions),
      (''deletions'', metrics_deletions), (''total_changes'', metrics_total_changes)]"

text \<open>
  \<open>metricsData[metricType]\<close> is a property read on a plain object: an own property gives
  its table, a name that \<open>Object.prototype\<close> defines gives the inherited member (a function,
  or the prototype itself for \<open>__proto__\<close>), any other name gives \<open>undefined\<close> (\<open>None\<close>).
\<close>

datatype metrics_value = DayTable day_table | Inherited string

definition object_prototype_names :: "string list" where
  "object_prototype_names =
     [''constructor'', ''__proto__'', ''hasOwnProperty'', ''isPrototypeOf'',
      ''propertyIsEnumerable'', ''toLocaleString'', ''toString'', ''valueOf'',
      ''__defineGetter__'', ''__defineSetter__'', ''__lookupGetter__'', ''__lookupSetter__'']"

definition metricsData_get :: "string \<Rightarrow> metrics_value option" where
  "metricsData_get k =
     (case map_of metricsData k of
        Some t \<Rightarrow> Some (DayTable t)
      | None \<Rightarrow> if k \<in> set object_prototype_names then Some (Inherited k) else None)"

text \<open>
  \<open>getMetrics({ startDate, endDate, metricType, author })\<close> waits 600 ms and returns
  \<open>metricsData[metricType] || metricsData.commits\<close>. Every value a property read can give
  here is an object or a function, so only \<open>undefined\<close> takes the right-hand side.
\<close>

definition mock_getMetrics ::
  "js_date \<Rightarrow> js_date \<Rightarrow> string \<Rightarrow> string option \<Rightarrow> metrics_value" where
  "mock_getMetrics startDate endDate metricType authorArg =
     (case metricsData_get metricType of
        Some v \<Rightarrow> v
      | None \<Rightarrow> DayTable metrics_commits)"

text \<open>\<open>getWordCloud({ startDate, endDate })\<close> waits 300 ms and returns a literal array.\<close>

definition mock_getWordCloud :: "js_date \<Rightarrow> js_date \<Rightarrow> (string \<times> int) list" where
  "mock_getWordCloud startDate endDate =
     [(''fix'', 22), (''feature'', 18), (''update'', 16), (''add'', 15), (''remove'', 14),
      (''refactor'', 13), (''test'', 12), (''optimize'', 11), (''docs'', 10),
      (''performance'', 9), (''security'', 8), (''cleanup'', 7), (''bug'', 6), (''ci'', 5),
      (''lint'', 4), (''merge'', 3), (''release'', 2), (''hotfix'', 2), (''chore'', 1),
      (''breaking'', 1)]"

section \<open>The dashboard container (App.jsx)\<close>

text \<open>
  \<open>new Set(xs)\<close> keeps the first occurrence of every value, in insertion order;
  \<open>Array.from\<close> lists the set in that order.
\<close>

fun array_from_set :: "'a list \<Rightarrow> 'a list" where
  "array_from_set [] = []"
| "array_from_set (x # xs) = x # array_from_set (filter (\<lambda>y. y \<noteq> x) xs)"

text \<open>
  In the container over the mock services:
  \<open>const authors = Array.from(new Set(outliers.map(o => o.author))).sort()\<close>.
  The default \<open>sort\<close> orders strings by their code units, a shorter prefix first.
\<close>

definition authors :: "outlier list \<Rightarrow> string list" where
  "authors outliers = sort (array_from_set (map author outliers))"

text \<open>
  The container over the HTTP client keeps its data in React state and in the cache of
  the date-range context. A cache read from local storage may lack any of its fields.
\<close>

record cache =
  cache_outliers :: "outlier list option"
  cache_metrics :: "day_table option"
  cache_wordCloud :: "(string \<times> int) list option"
  cache_authors :: "string list option"

record dashboard =
  st_loading :: bool
  st_fetchMessage :: "string option"
  st_outliers :: "outlier list"
  st_metrics :: day_table
  st_wordCloud :: "(string \<times> int) list"
  st_authorsList :: "string list"
  st_cache :: cache

text \<open>
  \<open>fetchAll\<close>: the four requests run under \<open>Promise.all\<close>; none of them can reject, each
  service catches every error, so the \<open>catch\<close> block of \<open>fetchAll\<close> is never entered.
  \<open>fetchAuthors\<close> stores the authors as it returns them.
\<close>

definition fetchAll :: "env \<Rightarrow> js_date \<Rightarrow> js_date \<Rightarrow> string \<Rightarrow> string \<Rightarrow> dashboard \<Rightarrow> dashboard" where
  "fetchAll e startDate endDate metricType authorFilter st =
     (let outliersRes = api_getOutliers e startDate endDate None None;
          metricsRes = api_getMetrics e startDate endDate (Some metricType) (Some authorFilter)
                         None None;
          wordCloudRes = api_getWordCloud e startDate endDate None None None;
          authorsRes = api_getAuthors e startDate endDate None None
      in st\<lparr>st_loading := False, st_outliers := outliersRes, st_metrics := metricsRes,
             st_wordCloud := wordCloudRes, st_authorsList := authorsRes,
             st_cache := \<lparr>cache_outliers = Some outliersRes, cache_metrics = Some metricsRes,
                          cache_wordCloud = Some wordCloudRes,
                          cache_authors = Some authorsRes\<rparr>\<rparr>)"

text \<open>
  \<open>reloadFromGitHub\<close>: fetch with \<open>useCache: false\<close>, show the message, reload everything
  only after a successful fetch, and return \<open>result.success\<close>. Neither \<open>fetchData\<close> nor
  \<open>fetchAll\<close> can reject, so the \<open>catch\<close> block is never entered; the \<open>finally\<close> block
  clears the loading flag. (The timer that clears the message five seconds later is left
  out.)
\<close>

definition reloadFromGitHub ::
  "env \<Rightarrow> js_date \<Rightarrow> js_date \<Rightarrow> string \<Rightarrow> string \<Rightarrow> dashboard \<Rightarrow> bool \<times> dashboard" where
  "reloadFromGitHub e startDate endDate metricType authorFilter st =
     (let result = api_fetchData e startDate endDate None None (Some False);
          st1 = st\<lparr>st_loading := True, st_fetchMessage := message result\<rparr>;
          st2 = (if success result then fetchAll e startDate endDate metricType authorFilter st1
                 else st1)
      in (success result, st2\<lparr>st_loading := False\<rparr>))"

section \<open>The commits table (data/schema.sql) and the commit store\<close>

text \<open>
  The columns of \<open>commits\<close> that a writer supplies, under their names in the schema:
  \<open>VARCHAR\<close> and \<open>TEXT\<close> as strings, \<open>INTEGER\<close> as an integer, \<open>TIMESTAMP\<close> as a number of
  microseconds, a column without \<open>NOT NULL\<close> that a commit may lack as an option.
\<close>

record commit_data =
  sha :: string
  author_name :: string
  author_email :: "string option"
  author_date :: int
  message_title :: string
  message_body :: "string option"
  additions :: int
  deletions :: int
  repository :: string

text \<open>
  A row adds the columns the store fills in; \<open>FLOAT\<close> is a real number. The surrogate
  key \<open>id SERIAL\<close> takes no part in what follows and is left out.
\<close>

record commits_row = commit_data +
  total_changes :: int
  created_at :: int
  z_score :: "real option"

datatype store_error = StringTooLong | IntegerOutOfRange

text \<open>The range of \<open>INTEGER\<close>, and the lengths \<open>VARCHAR(40)\<close> and \<open>VARCHAR(255)\<close> allow.\<close>

definition in_integer :: "int \<Rightarrow> bool" where
  "in_integer n = (- 2147483648 \<le> n \<and> n \<le> 2147483647)"

definition check_columns :: "commit_data \<Rightarrow> store_error option" where
  "check_columns c =
     (if length (sha c) > 40 \<or> length (author_name c) > 255
         \<or> (case author_email c of None \<Rightarrow> False | Some m \<Rightarrow> length m > 255)
         \<or> length (repository c) > 255
      then Some StringTooLong
      else if \<not> in_integer (additions c) \<or> \<not> in_integer (deletions c)
         \<or> \<not> in_integer (additions c + deletions c)
      then Some IntegerOutOfRange
      else None)"

text \<open>
  Modelled from the spec: the code of CommitStore is not among the sources, only the
  table it writes to. \<open>upsert(commit)\<close> is "insert-or-update keyed by identifier;
  recomputes total_changes". A commit whose \<open>sha\<close> is new becomes a new row, with
  \<open>created_at\<close> the time of the write (\<open>DEFAULT CURRENT_TIMESTAMP\<close>) and no \<open>z_score\<close>.
\<close>

definition insert_row :: "int \<Rightarrow> commit_data \<Rightarrow> commits_row" where
  "insert_row now c =
     \<lparr>sha = sha c, author_name = author_name c, author_email = author_email c,
      author_date = author_date c, message_title = message_title c,
      message_body = message_body c, additions = additions c, deletions = deletions c,
      repository = repository c, total_changes = additions c + deletions c,
      created_at = now, z_score = None\<rparr>"

text \<open>
  Modelled from the spec: the update half of \<open>upsert\<close>, missing with CommitStore. A
  commit whose \<open>sha\<close> is stored overwrites the supplied columns of its row and
  \<open>total_changes\<close>; \<open>sha\<close>, \<open>created_at\<close> and \<open>z_score\<close> stay.
\<close>

definition update_row :: "commit_data \<Rightarrow> commits_row \<Rightarrow> commits_row" where
  "update_row c r =
     r\<lparr>author_name := author_name c, author_email := author_email c,
       author_date := author_date c, message_title := message_title c,
       message_body := message_body c, additions := additions c, deletions := deletions c,
       repository := repository c, total_changes := additions c + deletions c\<rparr>"

text \<open>
  Modelled from the spec: the search of \<open>upsert\<close> for the row "keyed by identifier",
  missing with CommitStore. The table is the list of its rows in order of insertion.
\<close>

fun upsert_rows :: "int \<Rightarrow> commit_data \<Rightarrow> commits_row list \<Rightarrow> commits_row list" where
  "upsert_rows now c [] = [insert_row now c]"
| "upsert_rows now c (r # rs) =
     (if sha r = sha c then update_row c r # rs else r # upsert_rows now c rs)"

text \<open>
  Modelled from the spec: \<open>upsert(commit)\<close> of CommitStore, missing from the sources. A
  write that violates a column type is refused and nothing is written ("store write
  failure (constraint violation, ...) aborts").
\<close>

definition upsert :: "int \<Rightarrow> commit_data \<Rightarrow> commits_row list \<Rightarrow> store_error + commits_row list" where
  "upsert now c rows =
     (case check_columns c of Some err \<Rightarrow> Inl err | None \<Rightarrow> Inr (upsert_rows now c rows))"

text \<open>
  Modelled from the spec: the writer of CommitStore, missing from the sources. One write
  is an upsert at a time; a refused write leaves the table as it was.
\<close>

definition apply_write :: "commits_row list \<Rightarrow> int \<times> commit_data \<Rightarrow> commits_row list" where
  "apply_write rows w = (case upsert (fst w) (snd w) rows of Inl err \<Rightarrow> rows | Inr rows' \<Rightarrow> rows')"

text \<open>
  Modelled from the spec: the contents of CommitStore, missing from the sources, after a
  sequence of writes from the empty table.
\<close>

definition store_after :: "(int \<times> commit_data) list \<Rightarrow> commits_row list" where
  "store_after ws = foldl apply_write [] ws"

text \<open>
  Modelled from the spec: the analytics over the store (AnalyticsEngine) are missing
  from the sources. An "aggregate of metric" sums a column over the rows of one bucket
  (a weekday, an author, a range).
\<close>

definition aggregate :: "(commits_row \<Rightarrow> int) \<Rightarrow> (commits_row \<Rightarrow> bool) \<Rightarrow> commits_row list \<Rightarrow> int" where
  "aggregate metric bucket rows = sum_list (map metric (filter bucket rows))"

text \<open>The invariant of the table: no two rows with one \<open>sha\<close>, and every row's total right.\<close>

definition row_ok :: "commits_row \<Rightarrow> bool" where
  "row_ok r = (total_changes r = additions r + deletions r \<and> in_integer (total_changes r))"

definition store_ok :: "commits_row list \<Rightarrow> bool" where
  "store_ok rows = (distinct (map sha rows) \<and> list_all row_ok rows)"

section \<open>The day-of-week activity of the analytics engine\<close>

text \<open>The day of the week of a time value, 0 for Sunday: \<open>(Day(t) + 4) mod 7\<close>.\<close>

definition WeekDay :: "int \<Rightarrow> nat" where
  "WeekDay t = nat ((Day t + 4) mod 7)"

text \<open>
  Modelled from the spec: the metric types of \<open>getDayOfWeekActivity\<close>, whose code is
  missing from the sources: "metric in {commit count, additions, deletions,
  total_changes}", under the names the client sends.
\<close>

definition metric_of :: "string \<Rightarrow> (commits_row \<Rightarrow> int) option" where
  "metric_of m =
     (if m = ''commits'' then Some (\<lambda>r. 1)
      else if m = ''additions'' then Some additions
      else if m = ''deletions'' then Some deletions
      else if m = ''total_changes'' then Some total_changes
      else None)"

text \<open>
  Modelled from the spec: the bucket of a weekday in \<open>getDayOfWeekActivity\<close>, whose code
  is missing from the sources: the rows of the range whose author date falls on that
  weekday, with "optional author equality" as the filter.
\<close>

definition day_bucket :: "(commits_row \<Rightarrow> bool) \<Rightarrow> string option \<Rightarrow> nat \<Rightarrow> commits_row \<Rightarrow> bool" where
  "day_bucket in_range authorArg d r =
     (in_range r \<and> WeekDay (author_date r div 1000) = d
      \<and> (case authorArg of None \<Rightarrow> True | Some a \<Rightarrow> author_name r = a))"

text \<open>
  Modelled from the spec: \<open>getDayOfWeekActivity(repository, range, metric, author?)\<close> of
  the analytics engine, missing from the sources (only the client that calls its handler
  is there): a "mapping from weekday (7 buckets, fixed order Sun..Sat) to aggregate of
  metric"; "missing days are present with value 0".
\<close>

definition getDayOfWeekActivity ::
  "commits_row list \<Rightarrow> (commits_row \<Rightarrow> bool) \<Rightarrow> (commits_row \<Rightarrow> int) \<Rightarrow> string option
     \<Rightarrow> day_table" where
  "getDayOfWeekActivity rows in_range metric authorArg =
     map (\<lambda>d. (weekdays ! d, aggregate metric (day_bucket in_range authorArg d) rows)) [0..<7]"

text \<open>
  Modelled from the spec: the handler of \<open>GET /day-of-week\<close>, missing from the sources.
  It answers \<open>{day_activity: {Sun..Sat: number}}\<close>; invalid request parameters (bad date
  range, unknown metric type) are "rejected synchronously with a client error". How the
  handler reads the repository and the dates of a query is left open: \<open>range_of\<close> gives
  the rows a query selects, or nothing for a bad date range.
\<close>

definition day_of_week_handler ::
  "(query \<Rightarrow> (commits_row \<Rightarrow> bool) option) \<Rightarrow> commits_row list \<Rightarrow> query \<Rightarrow> string
     \<Rightarrow> string option \<Rightarrow> (day_table option) response" where
  "day_of_week_handler range_of rows q metricType authorArg =
     (case range_of q of
        None \<Rightarrow> Inl (RequestError (Some ''Invalid date range''))
      | Some in_range \<Rightarrow>
          (case metric_of metricType of
             None \<Rightarrow> Inl (RequestError (Some ''Unknown metric type''))
           | Some metric \<Rightarrow>
               Inr (Some (Some (getDayOfWeekActivity rows in_range metric authorArg)))))"

section \<open>Orderings of a word-frequency list\<close>

text \<open>
  Descending by count, ties in ascending order of the word; and descending by count
  alone.
\<close>

definition freq_before :: "string \<times> int \<Rightarrow> string \<times> int \<Rightarrow> bool" where
  "freq_before a b = (snd b < snd a \<or> (snd a = snd b \<and> fst a \<le> fst b))"

definition frequency_ordered :: "(string \<times> int) list \<Rightarrow> bool" where
  "frequency_ordered ws = sorted_wrt freq_before ws"

definition count_descending :: "(string \<times> int) list \<Rightarrow> bool" where
  "count_descending ws = sorted_wrt (\<lambda>a b. snd b \<le> snd a) ws"

section \<open>Sample environments\<close>

text \<open>
  An engine that parses two strings of the ECMAScript format, whose time values the
  format fixes (a date-time, and the first day of the year 10000 as \<open>toISOString\<close> prints
  it), and no other text.
\<close>

definition sample_parse :: "string \<Rightarrow> int option" where
  "sample_parse s =
     (if s = ''2024-07-18T12:30:00Z'' then Some 1721305800000
      else if s = ''+010000-01-01'' then Some 253402300800000
      else None)"

text \<open>A server that cannot be reached: every request is rejected, with no response.\<close>

definition env_down :: env where
  "env_down =
     \<lparr>Date_parse = sample_parse,
      get_authors = (\<lambda>q. Inl (RequestError None)),
      get_deviations = (\<lambda>q. Inl (RequestError None)),
      get_day_of_week = (\<lambda>q m a. Inl (RequestError None)),
      get_word_frequencies = (\<lambda>q n. Inl (RequestError None)),
      post_fetch_data = (\<lambda>q c. Inl (RequestError None))\<rparr>"

text \<open>A server that answers every request with an empty JSON object.\<close>

definition env_bare :: env where
  "env_bare =
     \<lparr>Date_parse = sample_parse,
      get_authors = (\<lambda>q. Inr (Some None)),
      get_deviations = (\<lambda>q. Inr (Some None)),
      get_day_of_week = (\<lambda>q m a. Inr (Some None)),
      get_word_frequencies = (\<lambda>q n. Inr (Some None)),
      post_fetch_data = (\<lambda>q c. Inr (Some \<lparr>status = None, response_message = None\<rparr>))\<rparr>"

text \<open>A server with no commits in the range: every request succeeds, with no data.\<close>

definition env_empty :: env where
  "env_empty =
     \<lparr>Date_parse = sample_parse,
      get_authors = (\<lambda>q. Inr (Some (Some []))),
      get_deviations = (\<lambda>q. Inr (Some (Some []))),
      get_day_of_week = (\<lambda>q m a. Inr (Some (Some zero_days))),
      get_word_frequencies = (\<lambda>q n. Inr (Some (Some []))),
      post_fetch_data =
        (\<lambda>q c. Inr (Some \<lparr>status = Some ''success'',
                           response_message = Some ''Fetched 0 commits''\<rparr>))\<rparr>"

text \<open>
  A server with some data: two authors, one outlier, a day-of-week table that has
  Monday only, three words in no particular order; it refuses to fetch, with a message.
\<close>

definition env_sample :: env where
  "env_sample =
     \<lparr>Date_parse = sample_parse,
      get_authors = (\<lambda>q. Inr (Some (Some [''Bob'', ''Alice'']))),
      get_deviations =
        (\<lambda>q. Inr (Some (Some [CommitDTO ''a1b2c3'' ''Bob'' ''Big refactor'' 1200
                                  ''2024-07-18T12:30:00Z'']))),
      get_day_of_week = (\<lambda>q m a. Inr (Some (Some [(''Mon'', 3)]))),
      get_word_frequencies =
        (\<lambda>q n. Inr (Some (Some [(''add'', 1), (''fix'', 2), (''bug'', 2)]))),
      post_fetch_data =
        (\<lambda>q c. Inl (RequestError (Some ''GitHub rate limit exceeded'')))\<rparr>"

definition july :: query where
  "july =
     \<lparr>start_date = ''2024-07-01'', end_date = ''2024-07-31'', repo_owner = ''OpenRA'',
      repo_name = ''OpenRA''\<rparr>"

definition sample_commit :: commit_data where
  "sample_commit =
     \<lparr>sha = ''a1b2c3'', author_name = ''Bob'', author_email = None,
      author_date = 1721305800000000, message_title = ''Big refactor'',
      message_body = None, additions = 900, deletions = 300, repository = ''OpenRA/OpenRA''\<rparr>"

definition sample_state :: dashboard where
  "sample_state =
     \<lparr>st_loading = False, st_fetchMessage = Some '''',
      st_outliers = [], st_metrics = [(''Mon'', 3)], st_wordCloud = [(''fix'', 2)],
      st_authorsList = [''Bob''],
      st_cache = \<lparr>cache_outliers = None, cache_metrics = Some [(''Mon'', 3)],
                   cache_wordCloud = Some [(''fix'', 2)], cache_authors = None\<rparr>\<rparr>"

text \<open>
  The day-of-week handler over a store that holds the sample commit, written on a
  Thursday; every query selects every row.
\<close>

definition env_backend :: env where
  "env_backend =
     env_down\<lparr>get_day_of_week :=
       day_of_week_handler (\<lambda>q. Some (\<lambda>r. True)) (store_after [(1, sample_commit)])\<rparr>"

section \<open>Basic facts\<close>

lemma js_then_simps [simp]:
  "js_then (Inl err) f = Inl err"
  "js_then (Inr v) f = f v"
  by (simp_all add: js_then_def)

lemma data_of_simps [simp]:
  "data_of (Inl err) = Inl err"
  "data_of (Inr None) = Inl TypeError"
  "data_of (Inr (Some v)) = Inr v"
  by (simp_all add: data_of_def)

lemma or_default_simps [simp]:
  "or_default None d = d"
  "or_default (Some v) d = v"
  by (simp_all add: or_default_def)

text \<open>The calendar of \<open>iso_date\<close> at a few known days.\<close>

lemmas iso_date_defs =
  iso_date_def iso_year_def YearFromTime_def MonthFromTime_def DateFromTime_def mp_def
  doy_def yoe_def doe_def era_def Day_def msPerDay_def digits2_def digits4_def digits6_def
  digit_char_def

lemma iso_date_examples:
  "iso_date 0 = ''1970-01-01''"
  "iso_date (- 1) = ''1969-12-31''"
  "iso_date 951782400000 = ''2000-02-29''"
  "iso_date 4107542400000 = ''2100-03-01''"
  "iso_date 253402300799999 = ''9999-12-31''"
  "iso_date (- 62167219200000) = ''0000-01-01''"
  "iso_date (- 62167219200001) = ''-000001-12-31''"
  "iso_date 8640000000000000 = ''+275760-09-13''"
  by (simp_all add: iso_date_defs)

lemma sample_day: "iso_date 1721305800000 = ''2024-07-18''"
  by (simp add: iso_date_defs)

lemma sample_year: "YearFromTime 1721305800000 = 2024"
  by (simp add: YearFromTime_def MonthFromTime_def mp_def doy_def yoe_def doe_def era_def
      Day_def msPerDay_def)

lemma is_digit_digit_char: "is_digit (digit_char n)"
proof -
  have "nat (n mod 10) < length ''0123456789''"
    by simp
  then show ?thesis
    unfolding is_digit_def digit_char_def by (rule nth_mem)
qed

lemma is_ymd_iso_date:
  "0 \<le> YearFromTime t \<Longrightarrow> YearFromTime t \<le> 9999 \<Longrightarrow> is_ymd (iso_date t)"
  by (simp add: iso_date_def iso_year_def digits4_def digits2_def is_digit_digit_char)

lemma formatDate_error: "formatDate parse d = Inl err \<Longrightarrow> err = RangeError"
  by (auto simp: formatDate_def toISOString_date_def
      split: js_date.splits if_splits option.splits)

lemma make_query_error:
  "make_query e startDate endDate repoOwner repoName = Inl err \<Longrightarrow> err = RangeError"
  by (auto simp: make_query_def js_then_def split: sum.splits dest: formatDate_error)

lemma make_query_ymd:
  "is_ymd s \<Longrightarrow> is_ymd t \<Longrightarrow>
   make_query e (Str s) (Str t) repoOwner repoName
     = Inr \<lparr>start_date = s, end_date = t, repo_owner = or_default repoOwner ''OpenRA'',
            repo_name = or_default repoName ''OpenRA''\<rparr>"
  by (auto simp: make_query_def formatDate_def)

lemma is_ymd_july: "is_ymd ''2024-07-01''" "is_ymd ''2024-07-31''"
  by (simp_all add: is_digit_def)

lemma make_query_july:
  "make_query e (Str ''2024-07-01'') (Str ''2024-07-31'') None None = Inr july"
  using make_query_ymd [OF is_ymd_july, of e None None] by (simp add: july_def)

lemma env_sample_simps:
  "Date_parse env_sample = sample_parse"
  "get_authors env_sample q = Inr (Some (Some [''Bob'', ''Alice'']))"
  "get_deviations env_sample q =
     Inr (Some (Some [CommitDTO ''a1b2c3'' ''Bob'' ''Big refactor'' 1200
                        ''2024-07-18T12:30:00Z'']))"
  "get_day_of_week env_sample q m a = Inr (Some (Some [(''Mon'', 3)]))"
  "get_word_frequencies env_sample q n =
     Inr (Some (Some [(''add'', 1), (''fix'', 2), (''bug'', 2)]))"
  "post_fetch_data env_sample q c = Inl (RequestError (Some ''GitHub rate limit exceeded''))"
  by (simp_all add: env_sample_def)

lemma env_down_simps:
  "Date_parse env_down = sample_parse"
  "get_authors env_down q = Inl (RequestError None)"
  "get_deviations env_down q = Inl (RequestError None)"
  "get_day_of_week env_down q m a = Inl (RequestError None)"
  "get_word_frequencies env_down q n = Inl (RequestError None)"
  "post_fetch_data env_down q c = Inl (RequestError None)"
  by (simp_all add: env_down_def)

lemma env_empty_simps:
  "Date_parse env_empty = sample_parse"
  "get_authors env_empty q = Inr (Some (Some []))"
  "get_deviations env_empty q = Inr (Some (Some []))"
  "get_day_of_week env_empty q m a = Inr (Some (Some zero_days))"
  "get_word_frequencies env_empty q n = Inr (Some (Some []))"
  "post_fetch_data env_empty q c =
     Inr (Some \<lparr>status = Some ''success'', response_message = Some ''Fetched 0 commits''\<rparr>)"
  by (simp_all add: env_empty_def)

lemma env_bare_simps:
  "Date_parse env_bare = sample_parse"
  "get_authors env_bare q = Inr (Some None)"
  "get_deviations env_bare q = Inr (Some None)"
  "get_day_of_week env_bare q m a = Inr (Some None)"
  "get_word_frequencies env_bare q n = Inr (Some None)"
  "post_fetch_data env_bare q c = Inr (Some \<lparr>status = None, response_message = None\<rparr>)"
  by (simp_all add: env_bare_def)

lemma down_tries:
  "api_getAuthors_try env_down (Str ''2024-07-01'') (Str ''2024-07-31'') None None
     = Inl (RequestError None)"
  "api_getOutliers_try env_down (Str ''2024-07-01'') (Str ''2024-07-31'') None None
     = Inl (RequestError None)"
  "api_getMetrics_try env_down (Str ''2024-07-01'') (Str ''2024-07-31'') None None None None
     = Inl (RequestError None)"
  "api_getWordCloud_try env_down (Str ''2024-07-01'') (Str ''2024-07-31'') None None None
     = Inl (RequestError None)"
  by (simp_all add: api_getAuthors_try_def api_getOutliers_try_def api_getMetrics_try_def
      api_getWordCloud_try_def make_query_july env_down_simps)

lemma empty_tries:
  "api_getAuthors_try env_empty (Str ''2024-07-01'') (Str ''2024-07-31'') None None = Inr []"
  "api_getOutliers_try env_empty (Str ''2024-07-01'') (Str ''2024-07-31'') None None = Inr []"
  "api_getMetrics_try env_empty (Str ''2024-07-01'') (Str ''2024-07-31'') None None None None
     = Inr zero_days"
  "api_getWordCloud_try env_empty (Str ''2024-07-01'') (Str ''2024-07-31'') None None None
     = Inr []"
  by (simp_all add: api_getAuthors_try_def api_getOutliers_try_def api_getMetrics_try_def
      api_getWordCloud_try_def make_query_july env_empty_simps slice0_def)

lemma sample_columns: "check_columns sample_commit = None"
  by (simp add: check_columns_def sample_commit_def in_integer_def)

lemma sample_store: "store_after [(1, sample_commit)] = [insert_row 1 sample_commit]"
  by (simp add: store_after_def apply_write_def upsert_def sample_columns)

lemma sample_weekday: "WeekDay (author_date (insert_row now sample_commit) div 1000) = 4"
  by (simp add: insert_row_def sample_commit_def WeekDay_def Day_def msPerDay_def)

section \<open>Word frequencies: order and limit\<close>

lemma length_slice0: "0 \<le> n \<Longrightarrow> int (length (slice0 xs n)) \<le> n"
  by (simp add: slice0_def)

lemma mock_count_descending: "count_descending (mock_getWordCloud s e)"
  by (simp add: count_descending_def mock_getWordCloud_def)

text \<open>
  C1, as the code has it. The mock \<open>getWordCloud\<close> returns, for every range, the same
  twenty entries in descending order of count (it takes no limit, and ties are not in
  lexical order). The client \<open>getWordCloud\<close> returns at most \<open>limit\<close> entries for every
  limit that is not negative (20 when left out), and when the server answers with a
  \<open>word_frequencies\<close> object the result is \<open>slice(0, limit)\<close> of its entries, in the order
  of the object: the client does not sort.
\<close>

theorem getWordCloud_order_and_limit:
  "count_descending (mock_getWordCloud s1 e1)
   \<and> length (mock_getWordCloud s1 e1) = 20
   \<and> (0 \<le> or_default limit 20 \<longrightarrow>
        int (length (api_getWordCloud e startDate endDate limit repoOwner repoName))
          \<le> or_default limit 20)
   \<and> (\<forall>q ws. make_query e startDate endDate repoOwner repoName = Inr q
          \<and> get_word_frequencies e q (or_default limit 20) = Inr (Some (Some ws))
        \<longrightarrow> api_getWordCloud e startDate endDate limit repoOwner repoName
            = slice0 ws (or_default limit 20))"
proof -
  have bound: "0 \<le> or_default limit 20 \<Longrightarrow>
      int (length (api_getWordCloud e startDate endDate limit repoOwner repoName))
        \<le> or_default limit 20"
    by (auto simp: api_getWordCloud_def api_getWordCloud_try_def js_then_def length_slice0
        split: sum.splits)
  have pass: "\<And>q ws. make_query e startDate endDate repoOwner repoName = Inr q \<Longrightarrow>
      get_word_frequencies e q (or_default limit 20) = Inr (Some (Some ws)) \<Longrightarrow>
      api_getWordCloud e startDate endDate limit repoOwner repoName
        = slice0 ws (or_default limit 20)"
    by (simp add: api_getWordCloud_def api_getWordCloud_try_def)
  have len: "length (mock_getWordCloud s1 e1) = 20"
    by (simp add: mock_getWordCloud_def)
  show ?thesis
    using bound pass len mock_count_descending [of s1 e1] by blast
qed

text \<open>
  The claim as stated fails on the mock: \<open>release\<close> stands before \<open>hotfix\<close>, both with
  count 2, and all twenty entries come back whatever limit the caller has in mind.
\<close>

theorem getWordCloud_counterexample:
  "\<not> frequency_ordered (mock_getWordCloud (Str ''2024-07-01'') (Str ''2024-07-31''))
   \<and> mock_getWordCloud (Str ''2024-07-01'') (Str ''2024-07-31'') ! 16 = (''release'', 2)
   \<and> mock_getWordCloud (Str ''2024-07-01'') (Str ''2024-07-31'') ! 17 = (''hotfix'', 2)
   \<and> \<not> ''release'' \<le> ''hotfix''
   \<and> length (mock_getWordCloud (Str ''2024-07-01'') (Str ''2024-07-31'')) = 20"
  by (simp add: frequency_ordered_def freq_before_def mock_getWordCloud_def
      less_eq_list_code less_list_code)

theorem getWordCloud_order_and_limit_witness:
  "count_descending (mock_getWordCloud Null Null)
   \<and> length (mock_getWordCloud Null Null) = 20
   \<and> int (length (api_getWordCloud env_sample (Str ''2024-07-01'') (Str ''2024-07-31'')
                     (Some 2) None None)) \<le> 2
   \<and> api_getWordCloud env_sample (Str ''2024-07-01'') (Str ''2024-07-31'') (Some 2) None None
       = [(''add'', 1), (''fix'', 2)]"
  using getWordCloud_order_and_limit [of Null Null "Some 2" env_sample "Str ''2024-07-01''"
      "Str ''2024-07-31''" None None]
  by (simp add: make_query_july env_sample_simps slice0_def)

section \<open>Day-of-week activity: seven weekdays\<close>

lemma mock_getMetrics_cases:
  "metricType \<notin> set object_prototype_names \<Longrightarrow>
   mock_getMetrics s e metricType a \<in> DayTable ` snd ` set metricsData"
  by (auto simp: mock_getMetrics_def metricsData_get_def metricsData_def
      split: option.splits if_splits)

lemma metricsData_keys: "\<forall>t \<in> snd ` set metricsData. map fst t = weekdays"
  by (simp add: metricsData_def metrics_commits_def metrics_additions_def
      metrics_deletions_def metrics_total_changes_def weekdays_def)

lemma keys_getDayOfWeekActivity:
  "map fst (getDayOfWeekActivity rows in_range metric authorArg) = weekdays"
  by (simp add: getDayOfWeekActivity_def weekdays_def upt_rec)

lemma aggregate_empty:
  "\<forall>r \<in> set rows. \<not> bucket r \<Longrightarrow> aggregate metric bucket rows = 0"
  by (induction rows) (simp_all add: aggregate_def)

lemma getDayOfWeekActivity_lookup:
  "d < 7 \<Longrightarrow>
   map_of (getDayOfWeekActivity rows in_range metric authorArg) (weekdays ! d)
     = Some (aggregate metric (day_bucket in_range authorArg d) rows)"
proof -
  assume "d < 7"
  then consider "d = 0" | "d = 1" | "d = 2" | "d = 3" | "d = 4" | "d = 5" | "d = 6"
    by linarith
  then show ?thesis
    by cases (simp_all add: getDayOfWeekActivity_def weekdays_def upt_rec eval_nat_numeral)
qed

text \<open>
  C2. The day-of-week result has exactly the keys Sun..Sat, a weekday without commits
  with value 0. The mock \<open>getMetrics\<close> returns a table with the seven keys for every
  metric type that is not a member of \<open>Object.prototype\<close>. The client \<open>getMetrics\<close>
  returns the seven keys, all 0, when the request fails or the response has no
  \<open>day_activity\<close>; over the day-of-week handler of the spec it returns the seven keys for
  every request, for a valid request the handler's table itself, and that table gives
  0 for a weekday whose bucket has no row.
\<close>

theorem getMetrics_weekdays:
  "(metricType \<notin> set object_prototype_names \<longrightarrow>
      (\<exists>t. mock_getMetrics s1 e1 metricType a1 = DayTable t \<and> map fst t = weekdays))
   \<and> map fst zero_days = weekdays \<and> map snd zero_days = replicate 7 0
   \<and> (\<forall>err. api_getMetrics_try e startDate endDate mt authorArg repoOwner repoName = Inl err
        \<longrightarrow> api_getMetrics e startDate endDate mt authorArg repoOwner repoName = zero_days)
   \<and> (\<forall>q. make_query e startDate endDate repoOwner repoName = Inr q
          \<and> get_day_of_week e q (or_default mt ''commits'') authorArg = Inr (Some None)
        \<longrightarrow> api_getMetrics e startDate endDate mt authorArg repoOwner repoName = zero_days)
   \<and> (get_day_of_week e = day_of_week_handler range_of rows \<longrightarrow>
        map fst (api_getMetrics e startDate endDate mt authorArg repoOwner repoName) = weekdays)
   \<and> (\<forall>q. get_day_of_week e = day_of_week_handler range_of rows
          \<and> make_query e startDate endDate repoOwner repoName = Inr q
          \<and> range_of q = Some in_range \<and> metric_of (or_default mt ''commits'') = Some metric
        \<longrightarrow> api_getMetrics e startDate endDate mt authorArg repoOwner repoName
            = getDayOfWeekActivity rows in_range metric authorArg)
   \<and> (d < 7 \<and> (\<forall>r \<in> set rows. \<not> day_bucket in_range a2 d r) \<longrightarrow>
        map_of (getDayOfWeekActivity rows in_range metric a2) (weekdays ! d) = Some 0)"
proof -
  have mock: "metricType \<notin> set object_prototype_names \<Longrightarrow>
      \<exists>t. mock_getMetrics s1 e1 metricType a1 = DayTable t \<and> map fst t = weekdays"
    using mock_getMetrics_cases [of metricType s1 e1 a1] metricsData_keys by auto
  have zeros: "map fst zero_days = weekdays" "map snd zero_days = replicate 7 0"
    by (simp_all add: zero_days_def weekdays_def eval_nat_numeral)
  have failed: "\<And>err. api_getMetrics_try e startDate endDate mt authorArg repoOwner repoName = Inl err
      \<Longrightarrow> api_getMetrics e startDate endDate mt authorArg repoOwner repoName = zero_days"
    by (simp add: api_getMetrics_def)
  have missing: "\<And>q. make_query e startDate endDate repoOwner repoName = Inr q \<Longrightarrow>
      get_day_of_week e q (or_default mt ''commits'') authorArg = Inr (Some None) \<Longrightarrow>
      api_getMetrics e startDate endDate mt authorArg repoOwner repoName = zero_days"
    by (simp add: api_getMetrics_def api_getMetrics_try_def)
  have backend: "map fst (api_getMetrics e startDate endDate mt authorArg repoOwner repoName)
      = weekdays"
    if "get_day_of_week e = day_of_week_handler range_of rows"
    using that zeros(1)
    by (auto simp: api_getMetrics_def api_getMetrics_try_def js_then_def data_of_def
        day_of_week_handler_def keys_getDayOfWeekActivity split: sum.splits option.splits)
  have served: "api_getMetrics e startDate endDate mt authorArg repoOwner repoName
            = getDayOfWeekActivity rows in_range metric authorArg"
    if "get_day_of_week e = day_of_week_handler range_of rows"
      and "make_query e startDate endDate repoOwner repoName = Inr q"
      and "range_of q = Some in_range"
      and "metric_of (or_default mt ''commits'') = Some metric" for q
    using that
    by (simp add: api_getMetrics_def api_getMetrics_try_def day_of_week_handler_def)
  have quiet: "map_of (getDayOfWeekActivity rows in_range metric a2) (weekdays ! d) = Some 0"
    if "d < 7" and "\<forall>r \<in> set rows. \<not> day_bucket in_range a2 d r"
    using that by (simp add: getDayOfWeekActivity_lookup aggregate_empty)
  show ?thesis
    using mock zeros failed missing backend served quiet by blast
qed

lemma backend_metrics:
  "api_getMetrics env_backend (Str ''2024-07-01'') (Str ''2024-07-31'') (Some ''commits'') None
     None None
   = [(''Sun'', 0), (''Mon'', 0), (''Tue'', 0), (''Wed'', 0), (''Thu'', 1), (''Fri'', 0),
      (''Sat'', 0)]"
  by (simp add: api_getMetrics_def api_getMetrics_try_def make_query_july env_backend_def
      day_of_week_handler_def metric_of_def getDayOfWeekActivity_def weekdays_def upt_rec
      aggregate_def day_bucket_def sample_store sample_weekday)

theorem getMetrics_weekdays_witness:
  "mock_getMetrics Null Null ''additions'' None = DayTable metrics_additions
   \<and> map fst metrics_additions = weekdays
   \<and> api_getMetrics env_down (Str ''2024-07-01'') (Str ''2024-07-31'') None None None None
       = zero_days
   \<and> api_getMetrics env_bare (Str ''2024-07-01'') (Str ''2024-07-31'') None None None None
       = zero_days
   \<and> api_getMetrics env_backend (Str ''2024-07-01'') (Str ''2024-07-31'') (Some ''commits'')
        None None None
       = getDayOfWeekActivity (store_after [(1, sample_commit)]) (\<lambda>r. True) (\<lambda>r. 1) None
   \<and> map fst (api_getMetrics env_backend (Str ''2024-07-01'') (Str ''2024-07-31'')
        (Some ''commits'') None None None) = weekdays
   \<and> map_of (getDayOfWeekActivity (store_after [(1, sample_commit)]) (\<lambda>r. True) (\<lambda>r. 1) None)
        ''Mon'' = Some 0"
proof -
  note at_july =
    getMetrics_weekdays [where metricType = "''additions''" and ?s1.0 = Null and ?e1.0 = Null
      and ?a1.0 = None and startDate = "Str ''2024-07-01''" and endDate = "Str ''2024-07-31''"
      and authorArg = None and repoOwner = None and repoName = None and d = 1
      and in_range = "\<lambda>r. True" and ?a2.0 = None and metric = "\<lambda>r. 1"]
  have mock: "mock_getMetrics Null Null ''additions'' None = DayTable metrics_additions"
    by (simp add: mock_getMetrics_def metricsData_get_def metricsData_def)
  have keys: "map fst metrics_additions = weekdays"
    using at_july [where e = env_down and mt = None and range_of = "\<lambda>q. None" and rows = "[]"]
      mock
    by (simp add: object_prototype_names_def)
  have down: "api_getMetrics env_down (Str ''2024-07-01'') (Str ''2024-07-31'') None None None
      None = zero_days"
    using at_july [where e = env_down and mt = None and range_of = "\<lambda>q. None" and rows = "[]"]
    by (simp add: down_tries)
  have bare: "api_getMetrics env_bare (Str ''2024-07-01'') (Str ''2024-07-31'') None None None
      None = zero_days"
    using at_july [where e = env_bare and mt = None and range_of = "\<lambda>q. None" and rows = "[]"]
    by (simp add: make_query_july env_bare_simps)
  have handler: "get_day_of_week env_backend
      = day_of_week_handler (\<lambda>q. Some (\<lambda>r. True)) (store_after [(1, sample_commit)])"
    by (simp add: env_backend_def)
  have monday: "\<forall>r \<in> set (store_after [(1, sample_commit)]). \<not> day_bucket (\<lambda>r. True) None 1 r"
    by (simp add: sample_store day_bucket_def sample_weekday)
  have name: "weekdays ! 1 = ''Mon''"
    by (simp add: weekdays_def)
  note at_backend =
    at_july [where e = env_backend and mt = "Some ''commits''"
      and range_of = "\<lambda>q. Some (\<lambda>r. True)" and rows = "store_after [(1, sample_commit)]"]
  have served: "api_getMetrics env_backend (Str ''2024-07-01'') (Str ''2024-07-31'')
      (Some ''commits'') None None None
       = getDayOfWeekActivity (store_after [(1, sample_commit)]) (\<lambda>r. True) (\<lambda>r. 1) None"
    using at_backend handler by (simp add: make_query_july metric_of_def)
  have seven: "map fst (api_getMetrics env_backend (Str ''2024-07-01'') (Str ''2024-07-31'')
        (Some ''commits'') None None None) = weekdays"
    using at_backend handler by blast
  have quiet: "map_of (getDayOfWeekActivity (store_after [(1, sample_commit)]) (\<lambda>r. True)
      (\<lambda>r. 1) None) ''Mon'' = Some 0"
    using at_backend monday name by simp
  show ?thesis
    using mock keys down bare served seven quiet by blast
qed

section \<open>Failures and empty results\<close>

text \<open>
  C3, as the code has it. No analytics request of the client reports an error: whatever
  is thrown inside \<open>getAuthors\<close>, \<open>getOutliers\<close>, \<open>getMetrics\<close> or \<open>getWordCloud\<close> is caught,
  and the caller receives the empty list (for \<open>getMetrics\<close> the seven weekdays with 0).
  An empty successful answer of the server gives the same value, so the value returned
  does not tell a failure from a legitimately empty result.
\<close>

theorem failure_same_as_empty:
  "(\<forall>err. api_getAuthors_try e startDate endDate repoOwner repoName = Inl err
      \<longrightarrow> api_getAuthors e startDate endDate repoOwner repoName = [])
   \<and> (\<forall>err. api_getOutliers_try e startDate endDate repoOwner repoName = Inl err
      \<longrightarrow> api_getOutliers e startDate endDate repoOwner repoName = [])
   \<and> (\<forall>err. api_getMetrics_try e startDate endDate mt authorArg repoOwner repoName = Inl err
      \<longrightarrow> api_getMetrics e startDate endDate mt authorArg repoOwner repoName = zero_days)
   \<and> (\<forall>err. api_getWordCloud_try e startDate endDate limit repoOwner repoName = Inl err
      \<longrightarrow> api_getWordCloud e startDate endDate limit repoOwner repoName = [])
   \<and> (\<forall>q. make_query e startDate endDate repoOwner repoName = Inr q \<longrightarrow>
        (get_authors e q = Inr (Some (Some [])) \<longrightarrow>
           api_getAuthors_try e startDate endDate repoOwner repoName = Inr []
           \<and> api_getAuthors e startDate endDate repoOwner repoName = [])
      \<and> (get_deviations e q = Inr (Some (Some [])) \<longrightarrow>
           api_getOutliers_try e startDate endDate repoOwner repoName = Inr []
           \<and> api_getOutliers e startDate endDate repoOwner repoName = [])
      \<and> (get_day_of_week e q (or_default mt ''commits'') authorArg
             = Inr (Some (Some zero_days)) \<longrightarrow>
           api_getMetrics_try e startDate endDate mt authorArg repoOwner repoName
             = Inr zero_days
           \<and> api_getMetrics e startDate endDate mt authorArg repoOwner repoName = zero_days)
      \<and> (get_word_frequencies e q (or_default limit 20) = Inr (Some (Some [])) \<longrightarrow>
           api_getWordCloud_try e startDate endDate limit repoOwner repoName = Inr []
           \<and> api_getWordCloud e startDate endDate limit repoOwner repoName = []))"
  by (simp add: api_getAuthors_def api_getOutliers_def api_getMetrics_def api_getWordCloud_def
      api_getAuthors_try_def api_getOutliers_try_def api_getMetrics_try_def
      api_getWordCloud_try_def slice0_def)

text \<open>
  The claim as stated fails: a server that cannot be reached and a server with no
  authors in the range give \<open>getAuthors\<close> the same return value.
\<close>

theorem failure_same_as_empty_counterexample:
  "api_getAuthors_try env_down (Str ''2024-07-01'') (Str ''2024-07-31'') None None
     = Inl (RequestError None)
   \<and> api_getAuthors_try env_empty (Str ''2024-07-01'') (Str ''2024-07-31'') None None = Inr []
   \<and> api_getAuthors env_down (Str ''2024-07-01'') (Str ''2024-07-31'') None None
     = api_getAuthors env_empty (Str ''2024-07-01'') (Str ''2024-07-31'') None None"
  by (simp add: down_tries empty_tries api_getAuthors_def)

theorem failure_same_as_empty_witness:
  "api_getAuthors env_down (Str ''2024-07-01'') (Str ''2024-07-31'') None None = []
   \<and> api_getOutliers env_down (Str ''2024-07-01'') (Str ''2024-07-31'') None None = []
   \<and> api_getMetrics env_down (Str ''2024-07-01'') (Str ''2024-07-31'') None None None None
       = zero_days
   \<and> api_getWordCloud env_down (Str ''2024-07-01'') (Str ''2024-07-31'') None None None = []
   \<and> api_getAuthors env_empty (Str ''2024-07-01'') (Str ''2024-07-31'') None None = []
   \<and> api_getOutliers env_empty (Str ''2024-07-01'') (Str ''2024-07-31'') None None = []
   \<and> api_getMetrics env_empty (Str ''2024-07-01'') (Str ''2024-07-31'') None None None None
       = zero_days
   \<and> api_getWordCloud env_empty (Str ''2024-07-01'') (Str ''2024-07-31'') None None None = []"
  using
    failure_same_as_empty [of env_down "Str ''2024-07-01''" "Str ''2024-07-31''" None None
      None None None]
    failure_same_as_empty [of env_empty "Str ''2024-07-01''" "Str ''2024-07-31''" None None
      None None None]
  by (simp add: down_tries make_query_july env_empty_simps)

section \<open>Invalid parameters\<close>

lemma effects_of_simps:
  "effects_of (Inl err) req rest = [Logged err]"
  "effects_of (Inr q) req rest
     = Sent (req q) # (case rest q of Inl err \<Rightarrow> [Logged err] | Inr v \<Rightarrow> [])"
  by (simp_all add: effects_of_def)

text \<open>The \<open>catch\<close> block logs exactly what the \<open>try\<close> block threw.\<close>

lemma logged_iff_thrown:
  "(Logged err \<in> set (effects_of params req rest)) = (js_then params rest = Inl err)"
  by (auto simp: effects_of_def js_then_def split: sum.splits)

lemma unknown_metric_lookup:
  "metricType \<notin> set (map fst metricsData) \<Longrightarrow> map_of metricsData metricType = None"
  by (simp add: map_of_eq_None_iff)

text \<open>
  C4, as the code has it. Invalid parameters are not rejected with an error. A metric
  type that is not one of the four keys of \<open>metricsData\<close> makes the mock \<open>getMetrics\<close>
  return the data of \<open>commits\<close>, unless it is one of the twelve names \<open>Object.prototype\<close>
  defines, for which the mock returns the inherited member. In the client, when a date
  cannot be formatted the \<open>RangeError\<close> is caught, nothing is sent, the only effect is the
  \<open>console.error\<close>, and the caller receives the empty value (from \<open>fetchData\<close> a result
  with \<open>success: false\<close> and the default message). Otherwise \<open>getMetrics\<close> sends exactly one
  request, with the metric type as it is, and a rejection by the server comes back as
  the seven weekdays with 0, logged once; two formatted dates are sent in either order.
\<close>

theorem invalid_parameters_not_rejected:
  "(metricType \<notin> set (map fst metricsData) \<longrightarrow>
      mock_getMetrics s1 e1 metricType a1
        = (if metricType \<in> set object_prototype_names then Inherited metricType
           else DayTable metrics_commits))
   \<and> (\<forall>err. make_query e startDate endDate repoOwner repoName = Inl err \<longrightarrow>
        api_getAuthors e startDate endDate repoOwner repoName = []
        \<and> api_getAuthors_effects e startDate endDate repoOwner repoName = [Logged RangeError]
        \<and> api_getOutliers e startDate endDate repoOwner repoName = []
        \<and> api_getOutliers_effects e startDate endDate repoOwner repoName = [Logged RangeError]
        \<and> api_getMetrics e startDate endDate mt authorArg repoOwner repoName = zero_days
        \<and> api_getMetrics_effects e startDate endDate mt authorArg repoOwner repoName
            = [Logged RangeError]
        \<and> api_getWordCloud e startDate endDate limit repoOwner repoName = []
        \<and> api_getWordCloud_effects e startDate endDate limit repoOwner repoName
            = [Logged RangeError]
        \<and> api_fetchData e startDate endDate repoOwner repoName useCache
            = \<lparr>success = False, message = Some ''Failed to fetch data from GitHub''\<rparr>
        \<and> api_fetchData_effects e startDate endDate repoOwner repoName useCache
            = [Logged RangeError])
   \<and> (\<forall>q. make_query e startDate endDate repoOwner repoName = Inr q \<longrightarrow>
        api_getMetrics e startDate endDate (Some metricType) authorArg repoOwner repoName
          = (case data_of (get_day_of_week e q metricType authorArg) of
               Inl err \<Rightarrow> zero_days
             | Inr day_activity \<Rightarrow> or_default day_activity zero_days)
        \<and> api_getMetrics_effects e startDate endDate (Some metricType) authorArg repoOwner
              repoName
          = Sent (GET_day_of_week q metricType authorArg)
              # (case data_of (get_day_of_week e q metricType authorArg) of
                   Inl err \<Rightarrow> [Logged err]
                 | Inr day_activity \<Rightarrow> []))
   \<and> (is_ymd s \<and> is_ymd t \<longrightarrow>
        make_query e (Str s) (Str t) repoOwner repoName
          = Inr \<lparr>start_date = s, end_date = t, repo_owner = or_default repoOwner ''OpenRA'',
                 repo_name = or_default repoName ''OpenRA''\<rparr>)"
proof -
  have mock: "mock_getMetrics s1 e1 metricType a1
        = (if metricType \<in> set object_prototype_names then Inherited metricType
           else DayTable metrics_commits)"
    if "metricType \<notin> set (map fst metricsData)"
    using unknown_metric_lookup [OF that]
    by (simp add: mock_getMetrics_def metricsData_get_def)
  have bad_values: "api_getAuthors e startDate endDate repoOwner repoName = []
        \<and> api_getOutliers e startDate endDate repoOwner repoName = []
        \<and> api_getMetrics e startDate endDate mt authorArg repoOwner repoName = zero_days
        \<and> api_getWordCloud e startDate endDate limit repoOwner repoName = []
        \<and> api_fetchData e startDate endDate repoOwner repoName useCache
            = \<lparr>success = False, message = Some ''Failed to fetch data from GitHub''\<rparr>"
    if "make_query e startDate endDate repoOwner repoName = Inl err" for err
    using that make_query_error [OF that]
    by (simp add: api_getAuthors_def api_getOutliers_def api_getMetrics_def
        api_getWordCloud_def api_fetchData_def api_getAuthors_try_def api_getOutliers_try_def
        api_getMetrics_try_def api_getWordCloud_try_def api_fetchData_try_def error_message_def)
  have bad_effects: "api_getAuthors_effects e startDate endDate repoOwner repoName
            = [Logged RangeError]
        \<and> api_getOutliers_effects e startDate endDate repoOwner repoName = [Logged RangeError]
        \<and> api_getMetrics_effects e startDate endDate mt authorArg repoOwner repoName
            = [Logged RangeError]
        \<and> api_getWordCloud_effects e startDate endDate limit repoOwner repoName
            = [Logged RangeError]
        \<and> api_fetchData_effects e startDate endDate repoOwner repoName useCache
            = [Logged RangeError]"
    if "make_query e startDate endDate repoOwner repoName = Inl err" for err
    using that make_query_error [OF that]
    by (simp add: api_getAuthors_effects_def api_getOutliers_effects_def
        api_getMetrics_effects_def api_getWordCloud_effects_def api_fetchData_effects_def
        effects_of_simps)
  have forward: "api_getMetrics e startDate endDate (Some metricType) authorArg repoOwner repoName
          = (case data_of (get_day_of_week e q metricType authorArg) of
               Inl err \<Rightarrow> zero_days
             | Inr day_activity \<Rightarrow> or_default day_activity zero_days)"
    if "make_query e startDate endDate repoOwner repoName = Inr q" for q
    using that
    by (simp add: api_getMetrics_def api_getMetrics_try_def js_then_def split: sum.splits)
  have sent: "api_getMetrics_effects e startDate endDate (Some metricType) authorArg repoOwner
              repoName
          = Sent (GET_day_of_week q metricType authorArg)
              # (case data_of (get_day_of_week e q metricType authorArg) of
                   Inl err \<Rightarrow> [Logged err]
                 | Inr day_activity \<Rightarrow> [])"
    if "make_query e startDate endDate repoOwner repoName = Inr q" for q
    using that
    by (simp add: api_getMetrics_effects_def effects_of_simps js_then_def split: sum.splits)
  have range: "is_ymd s \<Longrightarrow> is_ymd t \<Longrightarrow>
        make_query e (Str s) (Str t) repoOwner repoName
          = Inr \<lparr>start_date = s, end_date = t, repo_owner = or_default repoOwner ''OpenRA'',
                 repo_name = or_default repoName ''OpenRA''\<rparr>"
    by (rule make_query_ymd)
  show ?thesis
    using mock bad_values bad_effects forward sent range by blast
qed

text \<open>
  The claim as stated fails: the unknown metric type \<open>lines\<close> gets the data of \<open>commits\<close>
  from the mock, and an invalid start date gets seven zeros from the client.
\<close>

theorem invalid_parameters_counterexample:
  "mock_getMetrics (Str ''2024-07-01'') (Str ''2024-07-31'') ''lines'' None
     = DayTable metrics_commits
   \<and> mock_getMetrics (Str ''2024-07-01'') (Str ''2024-07-31'') ''lines'' None
     = mock_getMetrics (Str ''2024-07-01'') (Str ''2024-07-31'') ''commits'' None
   \<and> api_getMetrics env_sample (DateObj None) (Str ''2024-07-31'') (Some ''lines'') None None None
     = zero_days"
  by (simp add: mock_getMetrics_def metricsData_get_def metricsData_def
      object_prototype_names_def api_getMetrics_def api_getMetrics_try_def make_query_def
      formatDate_def toISOString_date_def)

theorem invalid_parameters_not_rejected_witness:
  "mock_getMetrics Null Null ''lines'' None = DayTable metrics_commits
   \<and> mock_getMetrics Null Null ''constructor'' None = Inherited ''constructor''
   \<and> api_getAuthors env_sample (DateObj None) (Str ''2024-07-31'') None None = []
   \<and> api_getOutliers env_sample (DateObj None) (Str ''2024-07-31'') None None = []
   \<and> api_getMetrics env_sample (DateObj None) (Str ''2024-07-31'') None None None None
       = zero_days
   \<and> api_getMetrics_effects env_sample (DateObj None) (Str ''2024-07-31'') None None None None
       = [Logged RangeError]
   \<and> api_getWordCloud env_sample (DateObj None) (Str ''2024-07-31'') None None None = []
   \<and> api_fetchData env_sample (DateObj None) (Str ''2024-07-31'') None None None
       = \<lparr>success = False, message = Some ''Failed to fetch data from GitHub''\<rparr>
   \<and> api_fetchData_effects env_sample (DateObj None) (Str ''2024-07-31'') None None None
       = [Logged RangeError]
   \<and> api_getMetrics env_sample (Str ''2024-07-01'') (Str ''2024-07-31'') (Some ''lines'') None
         None None = [(''Mon'', 3)]
   \<and> api_getMetrics_effects env_sample (Str ''2024-07-01'') (Str ''2024-07-31'')
         (Some ''lines'') None None None = [Sent (GET_day_of_week july ''lines'' None)]
   \<and> api_getMetrics env_down (Str ''2024-07-01'') (Str ''2024-07-31'') (Some ''lines'') None
         None None = zero_days
   \<and> api_getMetrics_effects env_down (Str ''2024-07-01'') (Str ''2024-07-31'')
         (Some ''lines'') None None None
       = [Sent (GET_day_of_week july ''lines'' None), Logged (RequestError None)]
   \<and> make_query env_sample (Str ''2024-07-31'') (Str ''2024-07-01'') None None
       = Inr \<lparr>start_date = ''2024-07-31'', end_date = ''2024-07-01'', repo_owner = ''OpenRA'',
              repo_name = ''OpenRA''\<rparr>"
proof -
  note at_dates =
    invalid_parameters_not_rejected [where ?s1.0 = Null and ?e1.0 = Null and ?a1.0 = None
      and mt = None and authorArg = None and repoOwner = None and repoName = None
      and limit = None and useCache = None and s = "''2024-07-31''" and t = "''2024-07-01''"]
  have keys: "''lines'' \<notin> set (map fst metricsData)"
    "''constructor'' \<notin> set (map fst metricsData)"
    by (simp_all add: metricsData_def)
  have lines: "mock_getMetrics Null Null ''lines'' None = DayTable metrics_commits"
    using at_dates [where metricType = "''lines''" and e = env_sample
        and startDate = "DateObj None" and endDate = "Str ''2024-07-31''"] keys
    by (simp add: object_prototype_names_def)
  have inherited: "mock_getMetrics Null Null ''constructor'' None = Inherited ''constructor''"
    using at_dates [where metricType = "''constructor''" and e = env_sample
        and startDate = "DateObj None" and endDate = "Str ''2024-07-31''"] keys
    by (simp add: object_prototype_names_def)
  have bad: "make_query env_sample (DateObj None) (Str ''2024-07-31'') None None = Inl RangeError"
    by (simp add: make_query_def formatDate_def toISOString_date_def)
  have unsent: "api_getAuthors env_sample (DateObj None) (Str ''2024-07-31'') None None = []
   \<and> api_getOutliers env_sample (DateObj None) (Str ''2024-07-31'') None None = []
   \<and> api_getMetrics env_sample (DateObj None) (Str ''2024-07-31'') None None None None
       = zero_days
   \<and> api_getMetrics_effects env_sample (DateObj None) (Str ''2024-07-31'') None None None None
       = [Logged RangeError]
   \<and> api_getWordCloud env_sample (DateObj None) (Str ''2024-07-31'') None None None = []
   \<and> api_fetchData env_sample (DateObj None) (Str ''2024-07-31'') None None None
       = \<lparr>success = False, message = Some ''Failed to fetch data from GitHub''\<rparr>
   \<and> api_fetchData_effects env_sample (DateObj None) (Str ''2024-07-31'') None None None
       = [Logged RangeError]"
    using at_dates [where metricType = "''lines''" and e = env_sample
        and startDate = "DateObj None" and endDate = "Str ''2024-07-31''"] bad
    by simp
  have served: "api_getMetrics env_sample (Str ''2024-07-01'') (Str ''2024-07-31'')
      (Some ''lines'') None None None = [(''Mon'', 3)]
   \<and> api_getMetrics_effects env_sample (Str ''2024-07-01'') (Str ''2024-07-31'')
         (Some ''lines'') None None None = [Sent (GET_day_of_week july ''lines'' None)]"
    using at_dates [where metricType = "''lines''" and e = env_sample
        and startDate = "Str ''2024-07-01''" and endDate = "Str ''2024-07-31''"]
    by (simp add: make_query_july env_sample_simps)
  have refused: "api_getMetrics env_down (Str ''2024-07-01'') (Str ''2024-07-31'')
      (Some ''lines'') None None None = zero_days
   \<and> api_getMetrics_effects env_down (Str ''2024-07-01'') (Str ''2024-07-31'')
         (Some ''lines'') None None None
       = [Sent (GET_day_of_week july ''lines'' None), Logged (RequestError None)]"
    using at_dates [where metricType = "''lines''" and e = env_down
        and startDate = "Str ''2024-07-01''" and endDate = "Str ''2024-07-31''"]
    by (simp add: make_query_july env_down_simps)
  have swapped: "make_query env_sample (Str ''2024-07-31'') (Str ''2024-07-01'') None None
       = Inr \<lparr>start_date = ''2024-07-31'', end_date = ''2024-07-01'', repo_owner = ''OpenRA'',
              repo_name = ''OpenRA''\<rparr>"
    using at_dates [where metricType = "''lines''" and e = env_sample
        and startDate = "Str ''2024-07-01''" and endDate = "Str ''2024-07-31''"]
    by (simp add: is_digit_def)
  show ?thesis
    using lines inherited unsent served refused swapped by blast
qed

section \<open>The result of \<open>fetchData\<close>\<close>

lemma error_message_nonempty: "error_message err \<noteq> []"
  by (auto simp: error_message_def split: js_error.splits option.splits)

lemma sample_fetch:
  "api_fetchData_try env_sample (Str ''2024-07-01'') (Str ''2024-07-31'') None None (Some False)
     = Inl (RequestError (Some ''GitHub rate limit exceeded''))"
  by (simp add: api_fetchData_try_def make_query_july env_sample_simps)

text \<open>
  C5. \<open>fetchData\<close> always returns a result with a success flag and a message, never an
  error. The flag is true exactly when the request was answered with data whose status
  is \<open>success\<close>; the message is then the one of the response; anything thrown inside is
  caught and becomes \<open>success: false\<close> with a message that is not empty.
  \<open>reloadFromGitHub\<close> returns the flag, and after a failed fetch it changes nothing but
  the message and the loading flag: the outliers, metrics, word cloud, authors and cache
  on display stay as they were.
\<close>

theorem fetchData_structured_result:
  "success (api_fetchData e startDate endDate repoOwner repoName useCache)
     = (\<exists>q d. make_query e startDate endDate repoOwner repoName = Inr q
          \<and> post_fetch_data e q (or_default useCache True) = Inr (Some d)
          \<and> status d = Some ''success'')
   \<and> (\<forall>q d. make_query e startDate endDate repoOwner repoName = Inr q
          \<and> post_fetch_data e q (or_default useCache True) = Inr (Some d)
        \<longrightarrow> message (api_fetchData e startDate endDate repoOwner repoName useCache)
            = response_message d)
   \<and> (\<forall>err. api_fetchData_try e startDate endDate repoOwner repoName useCache = Inl err
        \<longrightarrow> api_fetchData e startDate endDate repoOwner repoName useCache
              = \<lparr>success = False, message = Some (error_message err)\<rparr>
            \<and> error_message err \<noteq> [])
   \<and> fst (reloadFromGitHub e startDate endDate metricType authorFilter st)
       = success (api_fetchData e startDate endDate None None (Some False))
   \<and> (\<not> success (api_fetchData e startDate endDate None None (Some False)) \<longrightarrow>
        snd (reloadFromGitHub e startDate endDate metricType authorFilter st)
          = st\<lparr>st_loading := False,
                st_fetchMessage :=
                  message (api_fetchData e startDate endDate None None (Some False))\<rparr>)"
proof -
  have flag: "success (api_fetchData e startDate endDate repoOwner repoName useCache)
     = (\<exists>q d. make_query e startDate endDate repoOwner repoName = Inr q
          \<and> post_fetch_data e q (or_default useCache True) = Inr (Some d)
          \<and> status d = Some ''success'')"
    by (auto simp: api_fetchData_def api_fetchData_try_def js_then_def data_of_def
        split: sum.splits option.splits)
  have msg: "message (api_fetchData e startDate endDate repoOwner repoName useCache)
            = response_message d"
    if "make_query e startDate endDate repoOwner repoName = Inr q"
      and "post_fetch_data e q (or_default useCache True) = Inr (Some d)" for q d
    using that by (simp add: api_fetchData_def api_fetchData_try_def)
  have caught: "api_fetchData e startDate endDate repoOwner repoName useCache
              = \<lparr>success = False, message = Some (error_message err)\<rparr>
            \<and> error_message err \<noteq> []"
    if "api_fetchData_try e startDate endDate repoOwner repoName useCache = Inl err" for err
    using that by (simp add: api_fetchData_def error_message_nonempty)
  have returned: "fst (reloadFromGitHub e startDate endDate metricType authorFilter st)
       = success (api_fetchData e startDate endDate None None (Some False))"
    by (simp add: reloadFromGitHub_def Let_def)
  have kept: "\<not> success (api_fetchData e startDate endDate None None (Some False)) \<Longrightarrow>
        snd (reloadFromGitHub e startDate endDate metricType authorFilter st)
          = st\<lparr>st_loading := False,
                st_fetchMessage :=
                  message (api_fetchData e startDate endDate None None (Some False))\<rparr>"
    by (simp add: reloadFromGitHub_def Let_def)
  show ?thesis
    using flag msg caught returned kept by blast
qed

theorem fetchData_structured_result_witness:
  "api_fetchData env_sample (Str ''2024-07-01'') (Str ''2024-07-31'') None None (Some False)
     = \<lparr>success = False, message = Some ''GitHub rate limit exceeded''\<rparr>
   \<and> reloadFromGitHub env_sample (Str ''2024-07-01'') (Str ''2024-07-31'') ''commits'' []
       sample_state
     = (False, sample_state\<lparr>st_fetchMessage := Some ''GitHub rate limit exceeded''\<rparr>)
   \<and> success (api_fetchData env_empty (Str ''2024-07-01'') (Str ''2024-07-31'') None None
        (Some False))
   \<and> message (api_fetchData env_empty (Str ''2024-07-01'') (Str ''2024-07-31'') None None
        (Some False)) = Some ''Fetched 0 commits''"
proof -
  have caught: "api_fetchData env_sample (Str ''2024-07-01'') (Str ''2024-07-31'') None None
      (Some False) = \<lparr>success = False, message = Some ''GitHub rate limit exceeded''\<rparr>"
    using fetchData_structured_result [of env_sample "Str ''2024-07-01''" "Str ''2024-07-31''"
        None None "Some False" "''commits''" "[]" sample_state]
    by (simp add: sample_fetch error_message_def)
  have reload: "reloadFromGitHub env_sample (Str ''2024-07-01'') (Str ''2024-07-31'') ''commits''
      [] sample_state
     = (False, sample_state\<lparr>st_fetchMessage := Some ''GitHub rate limit exceeded''\<rparr>)"
    using fetchData_structured_result [of env_sample "Str ''2024-07-01''" "Str ''2024-07-31''"
        None None "Some False" "''commits''" "[]" sample_state] caught
    by (simp add: prod_eq_iff sample_state_def)
  have ok: "success (api_fetchData env_empty (Str ''2024-07-01'') (Str ''2024-07-31'') None None
        (Some False))
   \<and> message (api_fetchData env_empty (Str ''2024-07-01'') (Str ''2024-07-31'') None None
        (Some False)) = Some ''Fetched 0 commits''"
    using fetchData_structured_result [of env_empty "Str ''2024-07-01''" "Str ''2024-07-31''"
        None None "Some False" "''commits''" "[]" sample_state]
    by (simp add: make_query_july env_empty_simps)
  show ?thesis
    using caught reload ok by blast
qed

section \<open>The list of authors\<close>










section \<open>The commit store\<close>

lemma sha_insert_row [simp]: "sha (insert_row now c) = sha c"
  by (simp add: insert_row_def)

lemma sha_update_row [simp]: "sha (update_row c r) = sha r"
  by (simp add: update_row_def)

lemma update_row_insert_row: "update_row c (insert_row now c) = insert_row now c"
  by (simp add: update_row_def insert_row_def)

lemma update_row_twice: "update_row c (update_row c r) = update_row c r"
  by (simp add: update_row_def)

lemma upsert_rows_idem: "upsert_rows t2 c (upsert_rows t1 c rows) = upsert_rows t1 c rows"
proof (induction rows)
  case Nil
  show ?case by (simp add: update_row_insert_row)
next
  case (Cons r rows)
  then show ?case by (simp add: update_row_twice)
qed

lemma map_sha_upsert_rows:
  "map sha (upsert_rows now c rows)
     = (if sha c \<in> sha ` set rows then map sha rows else map sha rows @ [sha c])"
  by (induction rows) auto

lemma distinct_upsert_rows:
  "distinct (map sha rows) \<Longrightarrow> distinct (map sha (upsert_rows now c rows))"
  by (simp add: map_sha_upsert_rows)

lemma one_row_upsert_rows:
  "distinct (map sha rows) \<Longrightarrow>
   length (filter (\<lambda>r. sha r = sha c) (upsert_rows now c rows)) = 1"
proof (induction rows)
  case Nil
  show ?case by simp
next
  case (Cons r rows)
  show ?case
  proof (cases "sha r = sha c")
    case True
    from Cons.prems True have "sha c \<notin> sha ` set rows"
      by simp
    then have "filter (\<lambda>x. sha x = sha c) rows = []"
      by (force simp: filter_empty_conv image_iff)
    with True show ?thesis by simp
  next
    case False
    with Cons show ?thesis by simp
  qed
qed

lemma row_ok_insert_row: "check_columns c = None \<Longrightarrow> row_ok (insert_row now c)"
  by (simp add: row_ok_def insert_row_def check_columns_def split: if_splits)

lemma row_ok_update_row: "check_columns c = None \<Longrightarrow> row_ok (update_row c r)"
  by (simp add: row_ok_def update_row_def check_columns_def split: if_splits)

lemma row_ok_upsert_rows:
  "check_columns c = None \<Longrightarrow> list_all row_ok rows \<Longrightarrow>
   list_all row_ok (upsert_rows now c rows)"
  by (induction rows) (simp_all add: row_ok_insert_row row_ok_update_row)

lemma written_row:
  "\<exists>r \<in> set (upsert_rows now c rows). sha r = sha c
      \<and> total_changes r = additions c + deletions c"
  by (induction rows) (auto simp: insert_row_def update_row_def)

lemma store_ok_apply_write: "store_ok rows \<Longrightarrow> store_ok (apply_write rows w)"
  by (auto simp: store_ok_def apply_write_def upsert_def distinct_upsert_rows
      row_ok_upsert_rows split: option.splits)

lemma store_ok_foldl: "store_ok rows \<Longrightarrow> store_ok (foldl apply_write rows ws)"
  by (induction ws arbitrary: rows) (simp_all add: store_ok_apply_write)

lemma store_ok_store_after: "store_ok (store_after ws)"
  unfolding store_after_def by (rule store_ok_foldl) (simp add: store_ok_def)

lemma aggregate_total:
  "list_all row_ok rows \<Longrightarrow>
   aggregate total_changes bucket rows
     = aggregate additions bucket rows + aggregate deletions bucket rows"
  by (induction rows) (auto simp: aggregate_def row_ok_def)

text \<open>
  C7. Upserting the same commit twice is the same as upserting it once: the second
  upsert, at whatever time, succeeds and leaves the table exactly as the first one made
  it; and after an upsert into a store built by writes, exactly one row has the sha of
  the commit.
\<close>

theorem upsert_idempotent:
  "(upsert t1 c rows = Inr rows1 \<longrightarrow> upsert t2 c rows1 = Inr rows1)
   \<and> (upsert t1 c (store_after ws) = Inr rows2 \<longrightarrow>
        length (filter (\<lambda>r. sha r = sha c) rows2) = 1
        \<and> upsert t2 c rows2 = Inr rows2)"
proof -
  have idem: "upsert t2 c rows' = Inr rows'" if "upsert t1 c rows0 = Inr rows'" for rows0 rows'
    using that by (auto simp: upsert_def upsert_rows_idem split: option.splits)
  have one: "length (filter (\<lambda>r. sha r = sha c) rows2) = 1"
    if "upsert t1 c (store_after ws) = Inr rows2"
    using that store_ok_store_after [of ws]
    by (auto simp: upsert_def store_ok_def one_row_upsert_rows split: option.splits)
  show ?thesis
    using idem one by blast
qed

theorem upsert_idempotent_witness:
  "upsert 1 sample_commit [] = Inr [insert_row 1 sample_commit]
   \<and> upsert 2 sample_commit [insert_row 1 sample_commit] = Inr [insert_row 1 sample_commit]
   \<and> length (filter (\<lambda>r. sha r = sha sample_commit) [insert_row 1 sample_commit]) = 1
   \<and> upsert 3 sample_commit (store_after [(1, sample_commit)])
       = Inr [insert_row 1 sample_commit]"
proof -
  have first: "upsert 1 sample_commit [] = Inr [insert_row 1 sample_commit]"
    by (simp add: upsert_def sample_columns)
  have third: "upsert 3 sample_commit (store_after [(1, sample_commit)])
       = Inr [insert_row 1 sample_commit]"
    by (simp add: upsert_def sample_columns sample_store update_row_insert_row)
  show ?thesis
    using upsert_idempotent [of 1 sample_commit "[]" "[insert_row 1 sample_commit]" 2
        "[(1, sample_commit)]" "[insert_row 1 sample_commit]"]
      upsert_idempotent [of 3 sample_commit "[]" "[insert_row 1 sample_commit]" 2
        "[(1, sample_commit)]" "[insert_row 1 sample_commit]"]
      first third
    by simp
qed

text \<open>
  C8. In every store built by writes no two rows have the same sha, and every row has
  \<open>total_changes = additions + deletions\<close>, within \<open>INTEGER\<close>; the row an upsert writes has
  the total of the commit's additions and deletions; the aggregates over any bucket of
  rows satisfy total = additions + deletions; and so do the tables of the mock, day by
  day.
\<close>

theorem store_invariant:
  "distinct (map sha (store_after ws))
   \<and> (\<forall>r \<in> set (store_after ws).
         total_changes r = additions r + deletions r \<and> in_integer (total_changes r))
   \<and> (upsert now c (store_after ws) = Inr rows' \<longrightarrow>
        (\<exists>r \<in> set rows'. sha r = sha c \<and> total_changes r = additions c + deletions c))
   \<and> aggregate total_changes bucket (store_after ws)
       = aggregate additions bucket (store_after ws)
         + aggregate deletions bucket (store_after ws)
   \<and> map fst metrics_total_changes = map fst metrics_additions
   \<and> map fst metrics_total_changes = map fst metrics_deletions
   \<and> map snd metrics_total_changes
       = map2 (+) (map snd metrics_additions) (map snd metrics_deletions)"
proof -
  have ok: "store_ok (store_after ws)"
    by (rule store_ok_store_after)
  then have rows: "\<forall>r \<in> set (store_after ws).
      total_changes r = additions r + deletions r \<and> in_integer (total_changes r)"
    by (auto simp: store_ok_def list_all_iff row_ok_def)
  have written: "\<exists>r \<in> set rows'. sha r = sha c \<and> total_changes r = additions c + deletions c"
    if "upsert now c (store_after ws) = Inr rows'"
    using that written_row [of now c "store_after ws"]
    by (auto simp: upsert_def split: option.splits)
  have agg: "aggregate total_changes bucket (store_after ws)
       = aggregate additions bucket (store_after ws)
         + aggregate deletions bucket (store_after ws)"
    using ok by (simp add: store_ok_def aggregate_total)
  have mock: "map fst metrics_total_changes = map fst metrics_additions"
    "map fst metrics_total_changes = map fst metrics_deletions"
    "map snd metrics_total_changes
       = map2 (+) (map snd metrics_additions) (map snd metrics_deletions)"
    by (simp_all add: metrics_total_changes_def metrics_additions_def metrics_deletions_def)
  from ok have "distinct (map sha (store_after ws))"
    by (simp add: store_ok_def)
  then show ?thesis
    using rows written agg mock by blast
qed

theorem store_invariant_witness:
  "store_after [(1, sample_commit), (2, sample_commit)] = [insert_row 1 sample_commit]
   \<and> upsert 3 sample_commit (store_after [(1, sample_commit), (2, sample_commit)])
       = Inr [insert_row 1 sample_commit]
   \<and> sha (insert_row 1 sample_commit) = sha sample_commit
   \<and> total_changes (insert_row 1 sample_commit) = 1200
   \<and> additions (insert_row 1 sample_commit) + deletions (insert_row 1 sample_commit) = 1200
   \<and> in_integer (total_changes (insert_row 1 sample_commit))
   \<and> aggregate total_changes (\<lambda>r. author_name r = ''Bob'')
        (store_after [(1, sample_commit), (2, sample_commit)]) = 1200"
proof -
  have store: "store_after [(1, sample_commit), (2, sample_commit)]
      = [insert_row 1 sample_commit]"
    by (simp add: store_after_def apply_write_def upsert_def sample_columns
        update_row_insert_row)
  have total: "total_changes (insert_row 1 sample_commit) = 1200"
    "additions (insert_row 1 sample_commit) + deletions (insert_row 1 sample_commit) = 1200"
    by (simp_all add: insert_row_def sample_commit_def)
  have again: "upsert 3 sample_commit (store_after [(1, sample_commit), (2, sample_commit)])
       = Inr [insert_row 1 sample_commit]"
    by (simp add: store upsert_def sample_columns update_row_insert_row)
  show ?thesis
    using store_invariant [of "[(1, sample_commit), (2, sample_commit)]" 3 sample_commit
        "[insert_row 1 sample_commit]" "\<lambda>r. author_name r = ''Bob''"]
      store total again
    by (simp add: aggregate_def insert_row_def sample_commit_def)
qed

section \<open>\<open>formatDate\<close>\<close>

lemma is_expanded_iso_date:
  "\<not> (0 \<le> YearFromTime t \<and> YearFromTime t \<le> 9999) \<Longrightarrow> is_expanded_ymd (iso_date t)"
  by (simp add: iso_date_def iso_year_def digits6_def digits2_def is_expanded_ymd_def
      is_digit_digit_char)

text \<open>
  Formatting the result again: an empty result and a result in the form YYYY-MM-DD
  come back as they are; a result with an expanded year comes back as it is when
  \<open>Date.parse\<close> reads it as a time of the day it names, which ECMAScript requires of the
  date forms of its own format; an error stays the error.
\<close>

lemma formatDate_again:
  assumes "\<And>r. formatDate parse d = Inr r \<Longrightarrow> r \<noteq> [] \<Longrightarrow> \<not> is_ymd r \<Longrightarrow>
             \<exists>t'. new_Date parse r = Some t' \<and> iso_date t' = r"
  shows "js_then (formatDate parse d) (\<lambda>r. formatDate parse (Str r)) = formatDate parse d"
proof (cases "formatDate parse d")
  case (Inl err)
  then show ?thesis by simp
next
  case (Inr r)
  show ?thesis
  proof (cases "r = [] \<or> is_ymd r")
    case True
    with Inr show ?thesis by (auto simp: formatDate_def)
  next
    case False
    with assms [OF Inr] obtain t' where "new_Date parse r = Some t'" and "iso_date t' = r"
      by blast
    with Inr False show ?thesis
      by (simp add: formatDate_def toISOString_date_def)
  qed
qed

text \<open>
  C9, as the code has it. \<open>formatDate\<close> maps \<open>undefined\<close>, \<open>null\<close> and the empty string to
  the empty string and a string in the form YYYY-MM-DD to itself. It maps a valid
  \<open>Date\<close>, and any other string that parses to a valid date, to the date of its UTC day:
  in the form YYYY-MM-DD when the year is from 0 to 9999, and with a sign and six digits
  of year otherwise. On an invalid \<open>Date\<close>, and on a string that does not parse, it throws
  a \<open>RangeError\<close>. It is idempotent on every input, a throw staying the same throw,
  given that \<open>Date.parse\<close> reads a date with an expanded year that \<open>formatDate\<close> printed as
  a time of that day.
\<close>

theorem formatDate_format_idempotent:
  "formatDate parse Undefined = Inr [] \<and> formatDate parse Null = Inr []
   \<and> formatDate parse (Str []) = Inr []
   \<and> (is_ymd s \<longrightarrow> formatDate parse (Str s) = Inr s)
   \<and> formatDate parse (DateObj (Some t)) = Inr (iso_date t)
   \<and> (s \<noteq> [] \<and> \<not> is_ymd s \<and> new_Date parse s = Some t \<longrightarrow>
        formatDate parse (Str s) = Inr (iso_date t))
   \<and> (0 \<le> YearFromTime t \<and> YearFromTime t \<le> 9999 \<longrightarrow> is_ymd (iso_date t))
   \<and> (\<not> (0 \<le> YearFromTime t \<and> YearFromTime t \<le> 9999) \<longrightarrow> is_expanded_ymd (iso_date t))
   \<and> formatDate parse (DateObj None) = Inl RangeError
   \<and> (s \<noteq> [] \<and> \<not> is_ymd s \<and> new_Date parse s = None \<longrightarrow>
        formatDate parse (Str s) = Inl RangeError)
   \<and> ((\<forall>r. formatDate parse d = Inr r \<and> r \<noteq> [] \<and> \<not> is_ymd r \<longrightarrow>
          (\<exists>t'. new_Date parse r = Some t' \<and> iso_date t' = r)) \<longrightarrow>
        js_then (formatDate parse d) (\<lambda>r. formatDate parse (Str r)) = formatDate parse d)"
proof -
  have falsy: "formatDate parse Undefined = Inr []" "formatDate parse Null = Inr []"
    "formatDate parse (Str []) = Inr []"
    by (simp_all add: formatDate_def)
  have kept: "is_ymd s \<Longrightarrow> formatDate parse (Str s) = Inr s"
    by (auto simp: formatDate_def)
  have printed: "formatDate parse (DateObj (Some t)) = Inr (iso_date t)"
    by (simp add: formatDate_def toISOString_date_def)
  have parsed: "s \<noteq> [] \<Longrightarrow> \<not> is_ymd s \<Longrightarrow> new_Date parse s = Some t \<Longrightarrow>
      formatDate parse (Str s) = Inr (iso_date t)"
    by (simp add: formatDate_def toISOString_date_def)
  have four: "0 \<le> YearFromTime t \<Longrightarrow> YearFromTime t \<le> 9999 \<Longrightarrow> is_ymd (iso_date t)"
    by (rule is_ymd_iso_date)
  have six: "\<not> (0 \<le> YearFromTime t \<and> YearFromTime t \<le> 9999) \<Longrightarrow> is_expanded_ymd (iso_date t)"
    by (rule is_expanded_iso_date)
  have invalid: "formatDate parse (DateObj None) = Inl RangeError"
    by (simp add: formatDate_def toISOString_date_def)
  have unparsed: "s \<noteq> [] \<Longrightarrow> \<not> is_ymd s \<Longrightarrow> new_Date parse s = None \<Longrightarrow>
      formatDate parse (Str s) = Inl RangeError"
    by (simp add: formatDate_def toISOString_date_def)
  have again: "js_then (formatDate parse d) (\<lambda>r. formatDate parse (Str r)) = formatDate parse d"
    if "\<forall>r. formatDate parse d = Inr r \<and> r \<noteq> [] \<and> \<not> is_ymd r \<longrightarrow>
          (\<exists>t'. new_Date parse r = Some t' \<and> iso_date t' = r)"
    using that by (intro formatDate_again) blast
  show ?thesis
    using falsy kept printed parsed four six invalid unparsed again by blast
qed

text \<open>
  The claim as stated fails: an invalid \<open>Date\<close> and a text that is no date make
  \<open>formatDate\<close> throw, and the first day of the year 10000 is printed with a sign and
  six digits of year.
\<close>

theorem formatDate_counterexample:
  "formatDate sample_parse (DateObj None) = Inl RangeError
   \<and> formatDate sample_parse (Str ''yesterday'') = Inl RangeError
   \<and> formatDate sample_parse (DateObj (Some 253402300800000)) = Inr ''+010000-01-01''
   \<and> \<not> is_ymd ''+010000-01-01''"
  by (simp add: formatDate_def toISOString_date_def new_Date_def sample_parse_def
      iso_date_defs)

lemma year_10000: "iso_date 253402300800000 = ''+010000-01-01''"
  by (simp add: iso_date_defs)

lemma year_10000_expanded:
  "\<not> (0 \<le> YearFromTime 253402300800000 \<and> YearFromTime 253402300800000 \<le> 9999)"
  by (simp add: YearFromTime_def MonthFromTime_def mp_def doy_def yoe_def doe_def era_def
      Day_def msPerDay_def)

theorem formatDate_format_idempotent_witness:
  "formatDate sample_parse (Str ''2024-07-01'') = Inr ''2024-07-01''
   \<and> formatDate sample_parse (DateObj (Some 1721305800000)) = Inr ''2024-07-18''
   \<and> formatDate sample_parse (Str ''2024-07-18T12:30:00Z'') = Inr ''2024-07-18''
   \<and> is_ymd ''2024-07-18''
   \<and> formatDate sample_parse (Str ''2024-07-18'') = Inr ''2024-07-18''
   \<and> formatDate sample_parse (Str ''next week'') = Inl RangeError
   \<and> formatDate sample_parse (DateObj (Some 253402300800000)) = Inr ''+010000-01-01''
   \<and> is_expanded_ymd ''+010000-01-01''
   \<and> formatDate sample_parse (Str ''+010000-01-01'') = Inr ''+010000-01-01''
   \<and> js_then (formatDate sample_parse (DateObj None)) (\<lambda>r. formatDate sample_parse (Str r))
       = Inl RangeError"
proof -
  note at_sample = formatDate_format_idempotent [where parse = sample_parse]
  have july: "formatDate sample_parse (Str ''2024-07-01'') = Inr ''2024-07-01''"
    using at_sample [where s = "''2024-07-01''" and t = 0 and d = Null]
    by (simp add: is_digit_def)
  have date_object:
    "formatDate sample_parse (DateObj (Some 1721305800000)) = Inr ''2024-07-18''"
    using at_sample [where s = "''2024-07-01''" and t = 1721305800000 and d = Null]
    by (simp add: sample_day)
  have read: "new_Date sample_parse ''2024-07-18T12:30:00Z'' = Some 1721305800000"
    by (simp add: new_Date_def sample_parse_def TimeClip_def)
  have date_time: "formatDate sample_parse (Str ''2024-07-18T12:30:00Z'') = Inr ''2024-07-18''"
    using at_sample [where s = "''2024-07-18T12:30:00Z''" and t = 1721305800000 and d = Null]
      read
    by (simp add: sample_day)
  have form: "is_ymd ''2024-07-18''"
    using at_sample [where s = "''2024-07-01''" and t = 1721305800000 and d = Null]
    by (simp add: sample_year sample_day)
  have again: "formatDate sample_parse (Str ''2024-07-18'') = Inr ''2024-07-18''"
    using at_sample [where s = "''2024-07-01''" and t = 0
        and d = "DateObj (Some 1721305800000)"] date_object form
    by simp
  have unread: "new_Date sample_parse ''next week'' = None"
    by (simp add: new_Date_def sample_parse_def)
  have thrown: "formatDate sample_parse (Str ''next week'') = Inl RangeError"
    using at_sample [where s = "''next week''" and t = 0 and d = Null] unread
    by simp
  have far: "formatDate sample_parse (DateObj (Some 253402300800000)) = Inr ''+010000-01-01''"
    using at_sample [where s = "''2024-07-01''" and t = 253402300800000 and d = Null]
    by (simp add: year_10000)
  have wide: "is_expanded_ymd ''+010000-01-01''"
    using at_sample [where s = "''2024-07-01''" and t = 253402300800000 and d = Null]
      year_10000_expanded
    by (simp add: year_10000)
  have read_back: "new_Date sample_parse ''+010000-01-01'' = Some 253402300800000"
    by (simp add: new_Date_def sample_parse_def TimeClip_def)
  have far_again: "formatDate sample_parse (Str ''+010000-01-01'') = Inr ''+010000-01-01''"
    using at_sample [where s = "''2024-07-01''" and t = 0
        and d = "DateObj (Some 253402300800000)"] far read_back
    by (simp add: year_10000)
  have still_thrown: "js_then (formatDate sample_parse (DateObj None))
      (\<lambda>r. formatDate sample_parse (Str r)) = Inl RangeError"
    using at_sample [where s = "''2024-07-01''" and t = 0 and d = "DateObj None"]
    by simp
  show ?thesis
    using july date_object date_time form again thrown far wide far_again still_thrown
    by blast
qed

section \<open>The mock services and the date range\<close>

text \<open>
  C10. The mock \<open>getAuthors\<close>, \<open>getMetrics\<close> and \<open>getWordCloud\<close> are functions of their
  arguments that never read \<open>startDate\<close> or \<open>endDate\<close>: two calls with different date
  ranges (and, for \<open>getMetrics\<close>, the same \<open>metricType\<close>) return the same result.
\<close>

theorem mock_independent_of_dates:
  "mock_getAuthors s1 e1 = mock_getAuthors s2 e2
   \<and> mock_getMetrics s1 e1 metricType a1 = mock_getMetrics s2 e2 metricType a2
   \<and> mock_getWordCloud s1 e1 = mock_getWordCloud s2 e2"
  by (simp add: mock_getAuthors_def mock_getMetrics_def mock_getWordCloud_def)

end
